theory Spec2Isabelle
  imports Main
begin

section \<open>Credential indices (class AuthSource)\<close>

text \<open>
  \<^verbatim>\<open>[...new Set(indices)]\<close>: a JavaScript Set keeps the first occurrence of every
  element, in insertion order.
\<close>

definition setAdd :: "int \<Rightarrow> int list \<Rightarrow> int list" where
  "setAdd x acc = (if x \<in> set acc then acc else acc @ [x])"

definition newSet :: "int list \<Rightarrow> int list" where
  "newSet indices = fold setAdd indices []"

text \<open>
  \<^verbatim>\<open>_discoverAvailableIndices\<close>, after the candidate numbers have been read from the
  environment or the directory listing:
  \<^verbatim>\<open>this.initialIndices = [...new Set(indices)].sort((a, b) => a - b);\<close>
\<close>

definition discoverAvailableIndices :: "int list \<Rightarrow> int list" where
  "discoverAvailableIndices indices = sort (newSet indices)"

text \<open>
  \<^verbatim>\<open>_preValidateAndFilter\<close>: an index stays when its content can be read and parses
  as JSON; \<open>wellFormed\<close> stands for that test on the credential store.
\<close>

definition preValidateAndFilter :: "(int \<Rightarrow> bool) \<Rightarrow> int list \<Rightarrow> int list" where
  "preValidateAndFilter wellFormed availableIndices = filter wellFormed availableIndices"

text \<open>\<^verbatim>\<open>Array.prototype.indexOf\<close>: position of the first equal element, or \<open>-1\<close>.\<close>

fun indexOf :: "int list \<Rightarrow> int \<Rightarrow> int" where
  "indexOf [] v = -1"
| "indexOf (x # xs) v =
     (if x = v then 0
      else (let r = indexOf xs v in if r = -1 then -1 else r + 1))"

text \<open>
  \<^verbatim>\<open>RequestHandler._getNextAuthIndex\<close>; \<open>None\<close> is the source's \<^verbatim>\<open>null\<close>.
\<close>

definition getNextAuthIndex :: "int list \<Rightarrow> int \<Rightarrow> int option" where
  "getNextAuthIndex available currentAuthIndex =
     (if length available = 0 then None
      else
        (let currentIndexInArray = indexOf available currentAuthIndex in
         if currentIndexInArray = -1 then Some (available ! 0)
         else
           (let nextIndexInArray = (currentIndexInArray + 1) mod int (length available)
            in Some (available ! nat nextIndexInArray))))"


section \<open>The per-request queue (class MessageQueue)\<close>

text \<open>
  A consumer that waits in \<^verbatim>\<open>waitingResolvers\<close> is a resolver object; it is
  identified here by a number, which also names the promise that the \<^verbatim>\<open>dequeue\<close>
  call returned and the timeout armed for it. An operation returns the new queue and the
  promises it settles, in order. A JavaScript \<^verbatim>\<open>Error\<close> is its message.
\<close>

datatype 'm settlement = Resolve nat 'm | Reject nat string

record 'm messageQueue =
  messages :: "'m list"
  waitingResolvers :: "nat list"
  defaultTimeout :: nat
  closed :: bool
  armedTimeouts :: "(nat \<times> nat) list"

text \<open>\<^verbatim>\<open>constructor(timeoutMs = 600000)\<close>\<close>

definition newMessageQueue :: "'m messageQueue" where
  "newMessageQueue =
     \<lparr>messages = [], waitingResolvers = [], defaultTimeout = 600000, closed = False,
      armedTimeouts = []\<rparr>"

definition enqueue :: "'m messageQueue \<Rightarrow> 'm \<Rightarrow> 'm messageQueue \<times> 'm settlement list" where
  "enqueue q message =
     (if closed q then (q, [])
      else
        (case waitingResolvers q of
           resolver # rest \<Rightarrow> (q\<lparr>waitingResolvers := rest\<rparr>, [Resolve resolver message])
         | [] \<Rightarrow> (q\<lparr>messages := messages q @ [message]\<rparr>, [])))"

text \<open>
  \<^verbatim>\<open>dequeue(timeoutMs = this.defaultTimeout)\<close>, called as the consumer \<open>resolver\<close>.
  On a closed queue the async function throws, so its promise is rejected at once; with
  a buffered message it is resolved at once; otherwise the consumer is appended to the
  waiting list and a timeout is armed for it.
\<close>

definition dequeue ::
  "'m messageQueue \<Rightarrow> nat \<Rightarrow> nat option \<Rightarrow> 'm messageQueue \<times> 'm settlement list" where
  "dequeue q resolver timeoutMs =
     (if closed q then (q, [Reject resolver ''Queue is closed''])
      else
        (case messages q of
           m # rest \<Rightarrow> (q\<lparr>messages := rest\<rparr>, [Resolve resolver m])
         | [] \<Rightarrow>
             (q\<lparr>waitingResolvers := waitingResolvers q @ [resolver],
                armedTimeouts := armedTimeouts q @
                  [(resolver, (case timeoutMs of None \<Rightarrow> defaultTimeout q | Some t \<Rightarrow> t))]\<rparr>,
              [])))"

text \<open>The callback of the timeout armed by \<^verbatim>\<open>dequeue\<close> for \<open>resolver\<close>.\<close>

definition dequeueTimeout ::
  "'m messageQueue \<Rightarrow> nat \<Rightarrow> 'm messageQueue \<times> 'm settlement list" where
  "dequeueTimeout q resolver =
     (let q1 = q\<lparr>armedTimeouts := filter (\<lambda>t. fst t \<noteq> resolver) (armedTimeouts q)\<rparr> in
      if resolver \<in> set (waitingResolvers q1)
      then (q1\<lparr>waitingResolvers := remove1 resolver (waitingResolvers q1)\<rparr>,
            [Reject resolver ''Queue timeout''])
      else (q1, []))"

text \<open>
  \<^verbatim>\<open>close()\<close>: every waiting consumer has its timeout cleared and is rejected with
  \<^verbatim>\<open>new Error("Queue closed")\<close>; both lists are emptied.
\<close>

definition close :: "'m messageQueue \<Rightarrow> 'm messageQueue \<times> 'm settlement list" where
  "close q =
     (q\<lparr>closed := True,
        armedTimeouts :=
          filter (\<lambda>t. fst t \<notin> set (waitingResolvers q)) (armedTimeouts q),
        waitingResolvers := [],
        messages := []\<rparr>,
      map (\<lambda>resolver. Reject resolver ''Queue closed'') (waitingResolvers q))"


section \<open>The backchannel registry (class ConnectionRegistry)\<close>

text \<open>
  A websocket is identified by a number; \<^verbatim>\<open>connections\<close> is a Set and
  \<^verbatim>\<open>messageQueues\<close> a Map, both kept in insertion order. \<^verbatim>\<open>setTimeout\<close> and
  \<^verbatim>\<open>clearTimeout\<close> act on the timers of the event loop: \<open>armedTimers\<close> holds, for
  every timer that is armed, its handle and the time in milliseconds at which it is
  due; \<open>nextTimer\<close> is the handle that the next \<^verbatim>\<open>setTimeout\<close> returns. The only
  timers of the registry are the grace timers of \<^verbatim>\<open>_removeConnection\<close>.
\<close>

datatype 'm signal =
    Emit string
  | QueueClose string "'m messageQueue" "'m settlement list"

record 'm connectionRegistry =
  connections :: "nat list"
  messageQueues :: "(string \<times> 'm messageQueue) list"
  reconnectGraceTimer :: "nat option"
  armedTimers :: "(nat \<times> nat) list"
  nextTimer :: nat

definition newConnectionRegistry :: "'m connectionRegistry" where
  "newConnectionRegistry =
     \<lparr>connections = [], messageQueues = [], reconnectGraceTimer = None,
      armedTimers = [], nextTimer = 0\<rparr>"

definition clearTimeout :: "nat \<Rightarrow> (nat \<times> nat) list \<Rightarrow> (nat \<times> nat) list" where
  "clearTimeout handle timers = filter (\<lambda>t. fst t \<noteq> handle) timers"

definition addConnection ::
  "'m connectionRegistry \<Rightarrow> nat \<Rightarrow> 'm connectionRegistry \<times> 'm signal list" where
  "addConnection reg websocket =
     (let reg1 =
        (case reconnectGraceTimer reg of
           Some handle \<Rightarrow>
             reg\<lparr>armedTimers := clearTimeout handle (armedTimers reg),
                 reconnectGraceTimer := None\<rparr>
         | None \<Rightarrow> reg)
      in (reg1\<lparr>connections :=
                 (if websocket \<in> set (connections reg1) then connections reg1
                  else connections reg1 @ [websocket])\<rparr>,
          [Emit ''connectionAdded'']))"

text \<open>
  \<^verbatim>\<open>_removeConnection\<close>, run at time \<open>now\<close>: the new handle is stored over whatever
  \<^verbatim>\<open>reconnectGraceTimer\<close> held; the callback is \<open>graceExpired\<close> below.
\<close>

definition removeConnection ::
  "'m connectionRegistry \<Rightarrow> nat \<Rightarrow> nat \<Rightarrow> 'm connectionRegistry \<times> 'm signal list" where
  "removeConnection reg now websocket =
     (reg\<lparr>connections := removeAll websocket (connections reg),
          armedTimers := armedTimers reg @ [(nextTimer reg, now + 5000)],
          reconnectGraceTimer := Some (nextTimer reg),
          nextTimer := nextTimer reg + 1\<rparr>,
      [Emit ''connectionRemoved''])"

text \<open>
  The callback of the grace timer:
  \<^verbatim>\<open>this.messageQueues.forEach((queue) => queue.close()); this.messageQueues.clear();
  this.emit("connectionLost");\<close>
\<close>

definition graceExpired ::
  "'m connectionRegistry \<Rightarrow> 'm connectionRegistry \<times> 'm signal list" where
  "graceExpired reg =
     (reg\<lparr>messageQueues := []\<rparr>,
      map (\<lambda>entry. QueueClose (fst entry) (fst (close (snd entry))) (snd (close (snd entry))))
        (messageQueues reg)
      @ [Emit ''connectionLost''])"

text \<open>
  The event loop at time \<open>now\<close>: every armed timer that is due is disarmed and its
  callback runs, the earliest armed first.
\<close>

fun fireTimers ::
  "(nat \<times> nat) list \<Rightarrow> 'm connectionRegistry \<Rightarrow> 'm connectionRegistry \<times> 'm signal list" where
  "fireTimers [] reg = (reg, [])"
| "fireTimers (t # ts) reg =
     (let fired = graceExpired (reg\<lparr>armedTimers := clearTimeout (fst t) (armedTimers reg)\<rparr>);
          later = fireTimers ts (fst fired)
      in (fst later, snd fired @ snd later))"

definition runTimers ::
  "'m connectionRegistry \<Rightarrow> nat \<Rightarrow> 'm connectionRegistry \<times> 'm signal list" where
  "runTimers reg now = fireTimers (filter (\<lambda>t. snd t \<le> now) (armedTimers reg)) reg"

text \<open>\<^verbatim>\<open>Map.prototype.set\<close>: an existing key keeps its place.\<close>

fun mapSet :: "string \<Rightarrow> 'v \<Rightarrow> (string \<times> 'v) list \<Rightarrow> (string \<times> 'v) list" where
  "mapSet k v [] = [(k, v)]"
| "mapSet k v (p # ps) = (if fst p = k then (k, v) # ps else p # mapSet k v ps)"

definition createMessageQueue :: "'m connectionRegistry \<Rightarrow> string \<Rightarrow> 'm connectionRegistry" where
  "createMessageQueue reg requestId =
     reg\<lparr>messageQueues := mapSet requestId newMessageQueue (messageQueues reg)\<rparr>"

definition removeMessageQueue ::
  "'m connectionRegistry \<Rightarrow> string \<Rightarrow> 'm connectionRegistry \<times> 'm signal list" where
  "removeMessageQueue reg requestId =
     (case map_of (messageQueues reg) requestId of
        Some queue \<Rightarrow>
          (reg\<lparr>messageQueues := filter (\<lambda>p. fst p \<noteq> requestId) (messageQueues reg)\<rparr>,
           [QueueClose requestId (fst (close queue)) (snd (close queue))])
      | None \<Rightarrow> (reg, []))"

definition hasActiveConnections :: "'m connectionRegistry \<Rightarrow> bool" where
  "hasActiveConnections reg = (length (connections reg) > 0)"

text \<open>
  A registry to evaluate on: websockets 1 and 2 have connected, one after the other
  (\<^verbatim>\<open>wsServer.on("connection", ...)\<close> calls \<^verbatim>\<open>addConnection\<close> for every
  websocket that connects, whatever \<^verbatim>\<open>connections\<close> holds), a request has created
  the queue \<^verbatim>\<open>r1\<close>, and its handler, the consumer 4, waits in \<^verbatim>\<open>dequeue()\<close>.
\<close>

definition twoBackchannels :: "nat connectionRegistry" where
  "twoBackchannels =
     (let reg = createMessageQueue
                  (fst (addConnection (fst (addConnection newConnectionRegistry 1)) 2)) ''r1''
      in reg\<lparr>messageQueues :=
               map (\<lambda>entry. (fst entry, fst (dequeue (snd entry) 4 None))) (messageQueues reg)\<rparr>)"


section \<open>Strings\<close>

text \<open>
  A JavaScript string is modelled as a \<^typ>\<open>string\<close>, one character per code unit;
  only code units below 256 occur. \<^verbatim>\<open>startsWith\<close> and \<^verbatim>\<open>includes\<close> of
  \<^verbatim>\<open>String.prototype\<close>:
\<close>

fun startsWith :: "string \<Rightarrow> string \<Rightarrow> bool" where
  "startsWith s [] = True"
| "startsWith [] (c # cs) = False"
| "startsWith (d # ds) (c # cs) = (d = c \<and> startsWith ds cs)"

fun includesStr :: "string \<Rightarrow> string \<Rightarrow> bool" where
  "includesStr [] sub = startsWith [] sub"
| "includesStr (c # cs) sub = (startsWith (c # cs) sub \<or> includesStr cs sub)"


section \<open>The request handler (class RequestHandler): state and effects\<close>

text \<open>
  The fields of \<^verbatim>\<open>RequestHandler\<close> that the rotation and the admission read and
  write, together with \<^verbatim>\<open>browserManager.currentAuthIndex\<close> (the getter
  \<^verbatim>\<open>currentAuthIndex\<close>) and \<^verbatim>\<open>authSource.availableIndices\<close>.
\<close>

record handler =
  usageCount :: int
  activeRequestCount :: int
  pendingSwitch :: bool
  isAuthSwitching :: bool
  isSystemBusy :: bool
  currentAuthIndex :: int
  availableIndices :: "int list"

text \<open>\<^verbatim>\<open>this.config\<close> and \<^verbatim>\<open>this.serverSystem.streamingMode\<close>.\<close>

record config =
  switchOnUses :: int
  immediateSwitchStatusCodes :: "int list"
  streamingMode :: string

text \<open>The constructor's initial values.\<close>

definition newRequestHandler :: "int \<Rightarrow> int list \<Rightarrow> handler" where
  "newRequestHandler current available =
     \<lparr>usageCount = 0, activeRequestCount = 0, pendingSwitch = False,
      isAuthSwitching = False, isSystemBusy = False,
      currentAuthIndex = current, availableIndices = available\<rparr>"

text \<open>
  The texts sent to the client. The English ones are kept verbatim in \<open>Plain\<close>; the
  Chinese ones are named by what they say: \<open>SwitchingNotice status\<close> is the
  \<^verbatim>\<open>userMsg\<close> of \<^verbatim>\<open>_handleRequestFailureAndSwitch\<close> (upstream limit with
  \<^verbatim>\<open>Code ${status}\<close>, accounts are being switched, retry later),
  \<open>MaintenanceNotice\<close> the text of the two busy rejections of \<^verbatim>\<open>processRequest\<close>,
  \<open>RecoveryFailedNotice\<close> the text after a failed recovery, \<open>RequestFailedNotice m\<close>
  the pseudo-stream's failure text around the upstream message, and \<open>Upstream m\<close> is
  the upstream message passed on as it is (it may be absent).
\<close>

datatype notice =
    Plain string
  | SwitchingNotice "int option"
  | MaintenanceNotice
  | RecoveryFailedNotice
  | RequestFailedNotice "string option"
  | Upstream "string option"

text \<open>
  What a handler does to the outside, in order: to the client's response object
  (\<open>SendError\<close> is \<^verbatim>\<open>res.status(..).type("application/json").send(..)\<close> of
  \<^verbatim>\<open>_sendErrorResponse\<close>, which also ends the response; \<open>WriteErrorChunk\<close> the
  \<^verbatim>\<open>res.write\<close> of \<^verbatim>\<open>_sendErrorChunkToClient\<close>; \<open>WriteDone\<close> the write of
  \<^verbatim>\<open>data: [DONE]\<close>; \<open>SendModels\<close> the model list; \<open>EndResponse\<close> is
  \<^verbatim>\<open>res.end()\<close>), to the browser manager (\<open>SwitchAccount\<close>,
  \<open>LaunchOrSwitchContext\<close>, each an awaited call) and to the registry.
\<close>

datatype effect =
    SendError int notice
  | WriteErrorChunk notice
  | WriteDone
  | SendModels "string list"
  | EndResponse
  | SwitchAccount "int option"
  | LaunchOrSwitchContext int
  | CreateMessageQueue
  | ForwardRequest
  | RemoveMessageQueue

text \<open>The two flags of the Express response that the handlers test.\<close>

record response =
  headersSent :: bool
  writableEnded :: bool

definition freshResponse :: response where
  "freshResponse = \<lparr>headersSent = False, writableEnded = False\<rparr>"

text \<open>\<^verbatim>\<open>status || 500\<close>: an absent status and the number 0 are falsy.\<close>

definition statusOr500 :: "int option \<Rightarrow> int" where
  "statusOr500 status = (case status of None \<Rightarrow> 500 | Some n \<Rightarrow> if n = 0 then 500 else n)"

definition sendErrorResponse ::
  "response \<Rightarrow> int option \<Rightarrow> notice \<Rightarrow> response \<times> effect list" where
  "sendErrorResponse res status message =
     (if \<not> headersSent res
      then (res\<lparr>headersSent := True, writableEnded := True\<rparr>,
            [SendError (statusOr500 status) message])
      else (res, []))"

definition sendErrorChunkToClient :: "response \<Rightarrow> notice \<Rightarrow> response \<times> effect list" where
  "sendErrorChunkToClient res errorMessage =
     (if \<not> writableEnded res
      then (res\<lparr>headersSent := True\<rparr>, [WriteErrorChunk errorMessage])
      else (res, []))"

text \<open>\<^verbatim>\<open>if (!res.writableEnded) res.end();\<close>\<close>

definition endIfOpen :: "response \<Rightarrow> response \<times> effect list" where
  "endIfOpen res =
     (if \<not> writableEnded res
      then (res\<lparr>headersSent := True, writableEnded := True\<rparr>, [EndResponse])
      else (res, []))"


section \<open>Rotation (RequestHandler and BrowserManager)\<close>

text \<open>
  \<^verbatim>\<open>BrowserManager.launchOrSwitchContext(authIndex)\<close> as the handler sees it: it
  throws (\<open>False\<close>) when \<^verbatim>\<open>authSource.getAuth\<close> has no such index or when the browser
  session cannot be established (\<open>sessionOk\<close> is what the browser does); only at the end
  of a successful run is \<^verbatim>\<open>currentAuthIndex\<close> assigned. \<^verbatim>\<open>switchAccount\<close> awaits
  exactly this call.
\<close>

definition launchOrSwitchContext :: "bool \<Rightarrow> int option \<Rightarrow> handler \<Rightarrow> bool \<times> handler" where
  "launchOrSwitchContext sessionOk authIndex s =
     (case authIndex of
        None \<Rightarrow> (False, s)
      | Some i \<Rightarrow>
          if i \<in> set (availableIndices s) \<and> sessionOk
          then (True, s\<lparr>currentAuthIndex := i\<rparr>)
          else (False, s))"

datatype switchResult = Success int | AlreadyInProgress | Fallback int

datatype 'a completion = Returned 'a | Thrown

text \<open>The \<^verbatim>\<open>finally\<close> block of \<^verbatim>\<open>_switchToNextAuth\<close>.\<close>

definition releaseSwitch :: "handler \<Rightarrow> handler" where
  "releaseSwitch s = s\<lparr>isAuthSwitching := False, isSystemBusy := False\<rparr>"

text \<open>
  \<^verbatim>\<open>_switchToNextAuth\<close>. \<open>switchOk\<close> and \<open>fallbackOk\<close> are the browser's answers to
  the two awaited calls. The function is the sequence of its synchronous sections; what
  other tasks do while it is suspended at an \<^verbatim>\<open>await\<close> is not part of it.
\<close>

definition switchToNextAuth ::
  "bool \<Rightarrow> bool \<Rightarrow> handler \<Rightarrow> switchResult completion \<times> effect list \<times> handler" where
  "switchToNextAuth switchOk fallbackOk s =
     (if isAuthSwitching s then (Returned AlreadyInProgress, [], s)
      else
        (let s1 = s\<lparr>isSystemBusy := True, isAuthSwitching := True\<rparr>;
             previousAuthIndex = currentAuthIndex s1;
             nextAuthIndex = getNextAuthIndex (availableIndices s1) (currentAuthIndex s1);
             switched = launchOrSwitchContext switchOk nextAuthIndex s1
         in
           if fst switched then
             (let s2 = (snd switched)\<lparr>usageCount := 0\<rparr>
              in (Returned (Success (currentAuthIndex s2)),
                  [SwitchAccount nextAuthIndex],
                  releaseSwitch s2))
           else
             (let restored = launchOrSwitchContext fallbackOk (Some previousAuthIndex) (snd switched)
              in
                if fst restored then
                  (let s3 = (snd restored)\<lparr>usageCount := 0\<rparr>
                   in (Returned (Fallback (currentAuthIndex s3)),
                       [SwitchAccount nextAuthIndex, LaunchOrSwitchContext previousAuthIndex],
                       releaseSwitch s3))
                else
                  (Thrown,
                   [SwitchAccount nextAuthIndex, LaunchOrSwitchContext previousAuthIndex],
                   releaseSwitch (snd restored)))))"

text \<open>
  \<^verbatim>\<open>_tryExecutePendingSwitch\<close>: an error of the rotation is caught and logged, and
  \<^verbatim>\<open>pendingSwitch\<close> is cleared in the \<^verbatim>\<open>finally\<close>.
\<close>

definition tryExecutePendingSwitch :: "bool \<Rightarrow> bool \<Rightarrow> handler \<Rightarrow> effect list \<times> handler" where
  "tryExecutePendingSwitch switchOk fallbackOk s =
     (if pendingSwitch s \<and> activeRequestCount s = 0 \<and> \<not> isAuthSwitching s
      then
        (let r = switchToNextAuth switchOk fallbackOk s
         in (fst (snd r), (snd (snd r))\<lparr>pendingSwitch := False\<rparr>))
      else ([], s))"

text \<open>
  The counters' part of the \<^verbatim>\<open>finally\<close> block that ends \<^verbatim>\<open>processRequest\<close> and
  \<^verbatim>\<open>processOpenAIRequest\<close>:
  \<^verbatim>\<open>this.activeRequestCount--; if (this.activeRequestCount < 0) this.activeRequestCount = 0;
  this._tryExecutePendingSwitch();\<close>
\<close>

definition requestFinally :: "bool \<Rightarrow> bool \<Rightarrow> handler \<Rightarrow> effect list \<times> handler" where
  "requestFinally switchOk fallbackOk s =
     (let s1 = s\<lparr>activeRequestCount := activeRequestCount s - 1\<rparr>;
          s2 = (if activeRequestCount s1 < 0 then s1\<lparr>activeRequestCount := 0\<rparr> else s1)
      in tryExecutePendingSwitch switchOk fallbackOk s2)"

text \<open>How many rotations a sequence of effects starts.\<close>

definition rotations :: "effect list \<Rightarrow> nat" where
  "rotations es = length (filter (\<lambda>e. case e of SwitchAccount i \<Rightarrow> True | _ \<Rightarrow> False) es)"

text \<open>
  \<^verbatim>\<open>_handleRequestFailureAndSwitch(errorDetails, res)\<close>; \<open>status\<close> is
  \<^verbatim>\<open>errorDetails.status\<close>, and \<^verbatim>\<open>res\<close> is the response object that every caller
  passes. The result says whether the error was handled.
\<close>

definition includesStatus :: "int list \<Rightarrow> int option \<Rightarrow> bool" where
  "includesStatus codes status = (case status of None \<Rightarrow> False | Some n \<Rightarrow> n \<in> set codes)"

definition handleRequestFailureAndSwitch ::
  "config \<Rightarrow> bool \<Rightarrow> bool \<Rightarrow> int option \<Rightarrow> response \<Rightarrow> handler
   \<Rightarrow> bool \<times> response \<times> effect list \<times> handler" where
  "handleRequestFailureAndSwitch cfg switchOk fallbackOk status res s =
     (if includesStatus (immediateSwitchStatusCodes cfg) status then
        (let answered =
               (if \<not> headersSent res then
                  (let sent = sendErrorResponse res (Some 503) (SwitchingNotice status);
                       ended = endIfOpen (fst sent)
                   in (fst ended, snd sent @ snd ended))
                else if \<not> writableEnded res then
                  (let sent = sendErrorChunkToClient res (SwitchingNotice status)
                   in ((fst sent)\<lparr>headersSent := True, writableEnded := True\<rparr>,
                       snd sent @ [EndResponse]))
                else (res, []));
             r = switchToNextAuth switchOk fallbackOk s
         in (True, fst answered, snd answered @ fst (snd r), snd (snd r)))
      else (False, res, [], s))"


section \<open>Admission (processRequest, processOpenAIRequest)\<close>

record request =
  httpMethod :: string
  path :: string

definition isGenerativeRequest :: "request \<Rightarrow> bool" where
  "isGenerativeRequest req =
     (httpMethod req = ''POST''
      \<and> (includesStr (path req) ''generateContent''
         \<or> includesStr (path req) ''streamGenerateContent''))"

text \<open>
  The usage counter: \<^verbatim>\<open>if (this.config.switchOnUses > 0 && isGenerativeRequest &&
  !this.pendingSwitch) { this.usageCount++; if (this.usageCount >= this.config.switchOnUses)
  this.pendingSwitch = true; }\<close>; the chat handler has the same block without the
  \<^verbatim>\<open>isGenerativeRequest\<close> conjunct.
\<close>

definition countUsage :: "config \<Rightarrow> bool \<Rightarrow> handler \<Rightarrow> handler" where
  "countUsage cfg generative s =
     (if switchOnUses cfg > 0 \<and> generative \<and> \<not> pendingSwitch s then
        (let s1 = s\<lparr>usageCount := usageCount s + 1\<rparr>
         in if usageCount s1 \<ge> switchOnUses cfg then s1\<lparr>pendingSwitch := True\<rparr> else s1)
      else s)"

datatype admission = Rejected | AwaitingRecovery | Admitted

definition rotatingMessage :: notice where
  "rotatingMessage = Plain ''Server is rotating accounts, please retry shortly.''"

text \<open>
  \<^verbatim>\<open>processRequest\<close> from the line \<^verbatim>\<open>if (this.isSystemBusy)\<close> that follows the
  recovery block, to the end of the usage accounting.
\<close>

definition processRequest_connected ::
  "config \<Rightarrow> request \<Rightarrow> response \<Rightarrow> handler \<Rightarrow> admission \<times> response \<times> effect list \<times> handler" where
  "processRequest_connected cfg req res s =
     (if isSystemBusy s then
        (let s1 = s\<lparr>activeRequestCount := activeRequestCount s - 1\<rparr>;
             sent = sendErrorResponse res (Some 503) MaintenanceNotice
         in (Rejected, fst sent, snd sent, s1))
      else (Admitted, res, [], countUsage cfg (isGenerativeRequest req) s))"

text \<open>
  \<^verbatim>\<open>processRequest\<close> from its first line to its first suspension:
  \<open>connected\<close> is \<^verbatim>\<open>connectionRegistry.hasActiveConnections()\<close>. With no
  backchannel and an idle system the handler sets \<^verbatim>\<open>isSystemBusy\<close> and awaits
  \<^verbatim>\<open>launchOrSwitchContext(this.currentAuthIndex)\<close>; other tasks run on the state it
  leaves.
\<close>

definition processRequest_admit ::
  "config \<Rightarrow> bool \<Rightarrow> request \<Rightarrow> handler \<Rightarrow> admission \<times> response \<times> effect list \<times> handler" where
  "processRequest_admit cfg connected req s =
     (if pendingSwitch s \<or> isAuthSwitching s then
        (let sent = sendErrorResponse freshResponse (Some 503) rotatingMessage
         in (Rejected, fst sent, snd sent, s))
      else
        (let s1 = s\<lparr>activeRequestCount := activeRequestCount s + 1\<rparr> in
         if \<not> connected then
           (if isSystemBusy s1 then
              (let s2 = s1\<lparr>activeRequestCount := activeRequestCount s1 - 1\<rparr>;
                   sent = sendErrorResponse freshResponse (Some 503) MaintenanceNotice
               in (Rejected, fst sent, snd sent, s2))
            else
              (AwaitingRecovery, freshResponse, [LaunchOrSwitchContext (currentAuthIndex s1)],
               s1\<lparr>isSystemBusy := True\<rparr>))
         else processRequest_connected cfg req freshResponse s1))"

text \<open>
  \<^verbatim>\<open>processRequest\<close> when the awaited recovery has settled, on the state \<open>s\<close> of
  that moment; \<open>authIndex\<close> is the index the call was made with. The \<^verbatim>\<open>catch\<close>
  decrements the counter and rejects; the \<^verbatim>\<open>finally\<close> clears \<^verbatim>\<open>isSystemBusy\<close>.
\<close>

definition processRequest_recovered ::
  "config \<Rightarrow> bool \<Rightarrow> int \<Rightarrow> request \<Rightarrow> response \<Rightarrow> handler
   \<Rightarrow> admission \<times> response \<times> effect list \<times> handler" where
  "processRequest_recovered cfg recoveryOk authIndex req res s =
     (let launched = launchOrSwitchContext recoveryOk (Some authIndex) s in
      if \<not> fst launched then
        (let s1 = (snd launched)\<lparr>activeRequestCount := activeRequestCount (snd launched) - 1,
                                 isSystemBusy := False\<rparr>;
             sent = sendErrorResponse res (Some 503) RecoveryFailedNotice
         in (Rejected, fst sent, snd sent, s1))
      else processRequest_connected cfg req res ((snd launched)\<lparr>isSystemBusy := False\<rparr>))"

text \<open>The whole admission of \<^verbatim>\<open>processRequest\<close> when no other task runs in between.\<close>

definition processRequest_admission ::
  "config \<Rightarrow> bool \<Rightarrow> bool \<Rightarrow> request \<Rightarrow> handler \<Rightarrow> admission \<times> response \<times> effect list \<times> handler" where
  "processRequest_admission cfg connected recoveryOk req s =
     (let first = processRequest_admit cfg connected req s in
      if fst first = AwaitingRecovery then
        (let s1 = snd (snd (snd first));
             second = processRequest_recovered cfg recoveryOk (currentAuthIndex s1) req
                        (fst (snd first)) s1
         in (fst second, fst (snd second), fst (snd (snd first)) @ fst (snd (snd second)),
             snd (snd (snd second))))
      else first)"

text \<open>
  \<^verbatim>\<open>processOpenAIRequest\<close> up to the end of its usage accounting; it has no
  backchannel check.
\<close>

definition processOpenAIRequest_admit ::
  "config \<Rightarrow> handler \<Rightarrow> admission \<times> response \<times> effect list \<times> handler" where
  "processOpenAIRequest_admit cfg s =
     (if pendingSwitch s \<or> isAuthSwitching s then
        (let sent = sendErrorResponse freshResponse (Some 503) rotatingMessage
         in (Rejected, fst sent, snd sent, s))
      else
        (Admitted, freshResponse, [],
         countUsage cfg True (s\<lparr>activeRequestCount := activeRequestCount s + 1\<rparr>)))"


text \<open>
  The \<^verbatim>\<open>catch\<close> around \<^verbatim>\<open>_translateOpenAIToGoogle\<close> in
  \<^verbatim>\<open>processOpenAIRequest\<close>, which stands before the \<^verbatim>\<open>try\<close> whose
  \<^verbatim>\<open>finally\<close> ends the request: \<^verbatim>\<open>this.activeRequestCount--; return
  this._sendErrorResponse(res, 400, "Invalid OpenAI request format.");\<close>
\<close>

definition processOpenAIRequest_translationFailed ::
  "response \<Rightarrow> handler \<Rightarrow> response \<times> effect list \<times> handler" where
  "processOpenAIRequest_translationFailed res s =
     (let s1 = s\<lparr>activeRequestCount := activeRequestCount s - 1\<rparr>;
          sent = sendErrorResponse res (Some 400) (Plain ''Invalid OpenAI request format.'')
      in (fst sent, snd sent, s1))"

section \<open>The first upstream event of a response\<close>

text \<open>
  A message as a handler takes it from its queue: the frames \<^verbatim>\<open>response_headers\<close>,
  \<^verbatim>\<open>chunk\<close> and \<^verbatim>\<open>error\<close> are enqueued as they came, \<^verbatim>\<open>stream_close\<close> as
  the object \<^verbatim>\<open>{ type: "STREAM_END" }\<close>. \<open>isStreamEnd\<close> is
  \<^verbatim>\<open>message.type === "STREAM_END"\<close>, \<open>errorText\<close> the field \<^verbatim>\<open>message\<close>.
\<close>

datatype eventType = ResponseHeaders | Chunk | ErrorEvent

record message =
  event_type :: "eventType option"
  isStreamEnd :: bool
  status :: "int option"
  data :: "string option"
  errorText :: "string option"

text \<open>\<^verbatim>\<open>m.message && m.message.includes("The user aborted a request")\<close>\<close>

definition userAborted :: "message \<Rightarrow> bool" where
  "userAborted m =
     (case errorText m of None \<Rightarrow> False
      | Some t \<Rightarrow> includesStr t ''The user aborted a request'')"

text \<open>
  The branch \<^verbatim>\<open>headerMessage.event_type === "error"\<close> of
  \<^verbatim>\<open>_handleNonStreamResponse\<close>, for the error message \<open>m\<close>.
\<close>

definition nonStream_frontError ::
  "config \<Rightarrow> bool \<Rightarrow> bool \<Rightarrow> message \<Rightarrow> response \<Rightarrow> handler
   \<Rightarrow> response \<times> effect list \<times> handler" where
  "nonStream_frontError cfg switchOk fallbackOk m res s =
     (if userAborted m then
        (let sent = sendErrorResponse res (Some (statusOr500 (status m))) (Upstream (errorText m))
         in (fst sent, snd sent, s))
      else
        (let h = handleRequestFailureAndSwitch cfg switchOk fallbackOk (status m) res s in
         if fst h then snd h
         else
           (let sent = sendErrorResponse (fst (snd h)) (Some (statusOr500 (status m)))
                         (Upstream (errorText m))
            in (fst sent, fst (snd (snd h)) @ snd sent, snd (snd (snd h))))))"

text \<open>The same branch of \<^verbatim>\<open>_handleRealStreamResponse\<close>.\<close>

definition realStream_frontError ::
  "config \<Rightarrow> bool \<Rightarrow> bool \<Rightarrow> message \<Rightarrow> response \<Rightarrow> handler
   \<Rightarrow> response \<times> effect list \<times> handler" where
  "realStream_frontError cfg switchOk fallbackOk m res s =
     (if userAborted m then
        (let ended = endIfOpen res in (fst ended, snd ended, s))
      else
        (let h = handleRequestFailureAndSwitch cfg switchOk fallbackOk (status m) res s in
         if fst h then snd h
         else
           (let sent = sendErrorResponse (fst (snd h)) (status m) (Upstream (errorText m))
            in (fst sent, fst (snd (snd h)) @ snd sent, snd (snd (snd h))))))"

text \<open>
  The branch \<^verbatim>\<open>lastMessage.event_type === "error"\<close> of
  \<^verbatim>\<open>_handlePseudoStreamResponse\<close> with the handler's \<^verbatim>\<open>finally\<close>, which ends the
  response if it is still open. The keep-alive ticker may have written before, so the
  headers may have been sent.
\<close>

definition pseudoStream_frontError ::
  "config \<Rightarrow> bool \<Rightarrow> bool \<Rightarrow> message \<Rightarrow> response \<Rightarrow> handler
   \<Rightarrow> response \<times> effect list \<times> handler" where
  "pseudoStream_frontError cfg switchOk fallbackOk m res s =
     (let branch =
        (if userAborted m then (res, [], s)
         else
           (let h = handleRequestFailureAndSwitch cfg switchOk fallbackOk (status m) res s in
            if fst h then snd h
            else
              (let sent = sendErrorChunkToClient (fst (snd h)) (RequestFailedNotice (errorText m))
               in (fst sent, fst (snd (snd h)) @ snd sent, snd (snd (snd h))))));
          ended = endIfOpen (fst branch)
      in (fst ended, fst (snd branch) @ snd ended, snd (snd branch)))"

text \<open>
  The branch \<^verbatim>\<open>initialMessage.event_type === "error"\<close> of
  \<^verbatim>\<open>processOpenAIRequest\<close> with the response's part of its \<^verbatim>\<open>finally\<close>; the
  counters' part is \<open>requestFinally\<close>.
\<close>

definition openAI_frontError ::
  "config \<Rightarrow> bool \<Rightarrow> bool \<Rightarrow> bool \<Rightarrow> message \<Rightarrow> response \<Rightarrow> handler
   \<Rightarrow> response \<times> effect list \<times> handler" where
  "openAI_frontError cfg switchOk fallbackOk isOpenAIStream m res s =
     (let h = handleRequestFailureAndSwitch cfg switchOk fallbackOk (status m) res s;
          branch =
            (if fst h then (fst (snd h), [])
             else if isOpenAIStream then
               (if \<not> writableEnded (fst (snd h))
                then ((fst (snd h))\<lparr>headersSent := True, writableEnded := True\<rparr>,
                      [WriteDone, EndResponse])
                else (fst (snd h), []))
             else sendErrorResponse (fst (snd h)) (Some (statusOr500 (status m)))
                    (Upstream (errorText m)));
          ended = endIfOpen (fst branch)
      in (fst ended, fst (snd (snd h)) @ snd branch @ snd ended, snd (snd (snd h))))"


section \<open>The model list (processModelListRequest)\<close>

text \<open>
  What an awaited \<^verbatim>\<open>dequeue\<close> gives: a message, or the rejection's error. The list
  of a request holds what its successive \<^verbatim>\<open>dequeue\<close> calls give; when the list is
  used up nothing more arrives and the next \<^verbatim>\<open>dequeue\<close> ends with its timeout.
\<close>

datatype dequeued = Got message | Failed string

text \<open>
  \<^verbatim>\<open>while (true) { const message = await messageQueue.dequeue(60000); if (message.type
  === "STREAM_END") break; if (message.event_type === "chunk" && message.data) fullBody +=
  message.data; }\<close>
\<close>

fun collectBody :: "dequeued list \<Rightarrow> string \<Rightarrow> string completion" where
  "collectBody [] fullBody = Thrown"
| "collectBody (Failed e # rest) fullBody = Thrown"
| "collectBody (Got m # rest) fullBody =
     (if isStreamEnd m then Returned fullBody
      else collectBody rest
             (case data m of
                Some d \<Rightarrow> if event_type m = Some Chunk \<and> d \<noteq> [] then fullBody @ d else fullBody
              | None \<Rightarrow> fullBody))"

text \<open>\<^verbatim>\<open>name.replace("models/", "")\<close>: the first occurrence is removed.\<close>

fun dropFirst :: "string \<Rightarrow> string \<Rightarrow> string" where
  "dropFirst pat [] = []"
| "dropFirst pat (c # cs) =
     (if startsWith (c # cs) pat then drop (length pat) (c # cs) else c # dropFirst pat cs)"

text \<open>
  \<^verbatim>\<open>processModelListRequest\<close>. \<open>parseModels\<close> is \<^verbatim>\<open>JSON.parse\<close> followed by
  \<^verbatim>\<open>.models || []\<close>, giving the \<^verbatim>\<open>name\<close> of every record (\<open>None\<close> when it is
  not a string, on which \<^verbatim>\<open>.replace\<close> throws) and the empty list when the body does
  not parse. Everything thrown inside the \<^verbatim>\<open>try\<close> ends in the one \<^verbatim>\<open>catch\<close>.
\<close>

definition processModelListRequest ::
  "(string \<Rightarrow> string option list) \<Rightarrow> bool \<Rightarrow> dequeued list \<Rightarrow> handler
   \<Rightarrow> response \<times> effect list \<times> handler" where
  "processModelListRequest parseModels connected events s =
     (let attempt =
        (if \<not> connected then Thrown
         else
           (case events of
              [] \<Rightarrow> Thrown
            | Failed e # rest \<Rightarrow> Thrown
            | Got headerMessage # rest \<Rightarrow>
                if event_type headerMessage = Some ErrorEvent then Thrown
                else
                  (case collectBody rest [] of
                     Thrown \<Rightarrow> Thrown
                   | Returned fullBody \<Rightarrow>
                       (let googleModels = parseModels fullBody in
                        if None \<in> set googleModels then Thrown
                        else Returned (map (\<lambda>name. dropFirst ''models/'' (the name))
                                         googleModels)))));
          answered =
            (case attempt of
               Returned ids \<Rightarrow>
                 (\<lparr>headersSent = True, writableEnded = True\<rparr>, [SendModels ids])
             | Thrown \<Rightarrow>
                 sendErrorResponse freshResponse (Some 500) (Plain ''Failed to fetch model list.''))
      in (fst answered,
          [CreateMessageQueue] @ (if connected then [ForwardRequest] else [])
          @ snd answered @ [RemoveMessageQueue],
          s))"


section \<open>API keys (ProxyServerSystem)\<close>

text \<open>
  \<^verbatim>\<open>String.prototype.split(",")\<close> and \<^verbatim>\<open>String.prototype.trim\<close>. Of the white
  space and line terminators that \<^verbatim>\<open>trim\<close> removes, those below 256 are tab, line
  feed, vertical tab, form feed, carriage return, space and the no-break space.
\<close>

fun splitOn :: "char \<Rightarrow> string \<Rightarrow> string list" where
  "splitOn sep [] = [[]]"
| "splitOn sep (c # cs) =
     (if c = sep then [] # splitOn sep cs
      else (case splitOn sep cs of
              w # ws \<Rightarrow> (c # w) # ws
            | [] \<Rightarrow> [[c]]))"

definition isWhiteSpace :: "char \<Rightarrow> bool" where
  "isWhiteSpace c =
     (c = CHR 0x09 \<or> c = CHR 0x0A \<or> c = CHR 0x0B \<or> c = CHR 0x0C \<or> c = CHR 0x0D
      \<or> c = CHR 0x20 \<or> c = CHR 0xA0)"

definition trim :: "string \<Rightarrow> string" where
  "trim s = rev (dropWhile isWhiteSpace (rev (dropWhile isWhiteSpace s)))"

text \<open>
  The part of \<^verbatim>\<open>_loadConfiguration\<close> that builds \<^verbatim>\<open>config.apiKeys\<close>;
  \<open>envApiKeys\<close> is \<^verbatim>\<open>process.env.API_KEYS\<close>, and the empty string is falsy.
\<close>

definition loadApiKeys :: "string option \<Rightarrow> string list" where
  "loadApiKeys envApiKeys =
     (let apiKeys0 =
            (case envApiKeys of
               None \<Rightarrow> []
             | Some v \<Rightarrow> if v \<noteq> [] then splitOn CHR '','' v else []);
          apiKeys1 = filter (\<lambda>k. k \<noteq> []) (map trim apiKeys0)
      in if length apiKeys1 > 0 then apiKeys1 else [''123456''])"

text \<open>
  What the key check reads of a request: three headers and the query parameter
  \<^verbatim>\<open>key\<close>, which the query parser gives as a string or, when the parameter is
  repeated or nested, as an array or object (\<open>QueryStructure\<close>: truthy, and equal to no
  string).
\<close>

datatype queryValue = QueryString string | QueryStructure

record keyRequest =
  xGoogApiKey :: "string option"
  authorization :: "string option"
  xApiKey :: "string option"
  queryKey :: "queryValue option"

datatype keyCheck = Next keyRequest | Denied401

definition truthyHeader :: "string option \<Rightarrow> bool" where
  "truthyHeader h = (case h of None \<Rightarrow> False | Some v \<Rightarrow> v \<noteq> [])"

definition truthyQuery :: "queryValue option \<Rightarrow> bool" where
  "truthyQuery q =
     (case q of None \<Rightarrow> False | Some (QueryString v) \<Rightarrow> v \<noteq> [] | Some QueryStructure \<Rightarrow> True)"

text \<open>The \<^verbatim>\<open>if\<close> chain that picks \<^verbatim>\<open>clientKey\<close>; \<open>None\<close> is \<^verbatim>\<open>null\<close>.\<close>

definition clientKey :: "keyRequest \<Rightarrow> queryValue option" where
  "clientKey req =
     (if truthyHeader (xGoogApiKey req) then Some (QueryString (the (xGoogApiKey req)))
      else if truthyHeader (authorization req) \<and> startsWith (the (authorization req)) ''Bearer ''
        then Some (QueryString (drop 7 (the (authorization req))))
      else if truthyHeader (xApiKey req) then Some (QueryString (the (xApiKey req)))
      else if truthyQuery (queryKey req) then queryKey req
      else None)"

text \<open>
  The middleware of \<^verbatim>\<open>_createAuthMiddleware\<close>: with no configured key every request
  passes; otherwise a request passes when its client key is truthy and one of the
  configured keys (its query parameter \<^verbatim>\<open>key\<close> is then deleted), and is answered 401
  in every other case.
\<close>

definition authMiddleware :: "string list \<Rightarrow> keyRequest \<Rightarrow> keyCheck" where
  "authMiddleware serverApiKeys req =
     (if length serverApiKeys = 0 then Next req
      else
        (case clientKey req of
           Some (QueryString k) \<Rightarrow>
             if k \<noteq> [] \<and> k \<in> set serverApiKeys
             then Next (if truthyQuery (queryKey req) then req\<lparr>queryKey := None\<rparr> else req)
             else Denied401
         | Some QueryStructure \<Rightarrow> Denied401
         | None \<Rightarrow> Denied401))"


section \<open>Chat dialect to native dialect (_translateOpenAIToGoogle)\<close>


















section \<open>A configuration, a handler and upstream errors to evaluate on\<close>

text \<open>
  The default configuration of \<^verbatim>\<open>_loadConfiguration\<close> (threshold 40, immediate
  switch on 401, 403 and 429), the same with the threshold 1, a handler after start-up on
  index 1 of the valid indices 1, 3 and 7, a native generation request, a chat request
  body, and two \<^verbatim>\<open>error\<close> events with status 429.
\<close>

definition defaultConfig :: config where
  "defaultConfig =
     \<lparr>switchOnUses = 40, immediateSwitchStatusCodes = [401, 403, 429], streamingMode = ''real''\<rparr>"

definition thresholdOne :: config where
  "thresholdOne = defaultConfig\<lparr>switchOnUses := 1\<rparr>"

definition idleHandler :: handler where
  "idleHandler = newRequestHandler 1 [1, 3, 7]"

definition rateLimited :: message where
  "rateLimited =
     \<lparr>event_type = Some ErrorEvent, isStreamEnd = False, status = Some 429, data = None,
      errorText = Some ''Resource has been exhausted''\<rparr>"

definition generateRequest :: request where
  "generateRequest =
     \<lparr>httpMethod = ''POST'', path = ''/v1beta/models/gemini-pro:generateContent''\<rparr>"


definition abortedWith429 :: message where
  "abortedWith429 = rateLimited\<lparr>errorText := Some ''The user aborted a request.''\<rparr>"


section \<open>Properties of the credential indices\<close>

lemma indexOf_absent: "v \<notin> set xs \<Longrightarrow> indexOf xs v = -1"
  by (induction xs) (auto simp: Let_def)

lemma indexOf_range: "indexOf xs v = -1 \<or> (0 \<le> indexOf xs v \<and> indexOf xs v < int (length xs))"
  by (induction xs) (auto simp: Let_def)

lemma indexOf_nth: "distinct xs \<Longrightarrow> i < length xs \<Longrightarrow> indexOf xs (xs ! i) = int i"
proof (induction xs arbitrary: i)
  case Nil
  then show ?case by simp
next
  case (Cons x xs)
  show ?case
  proof (cases i)
    case 0
    then show ?thesis by simp
  next
    case (Suc j)
    with Cons.prems have j: "j < length xs" and d: "distinct xs" and nx: "xs ! j \<noteq> x"
      by auto
    from Cons.IH [OF d j] have "indexOf xs (xs ! j) = int j" .
    with nx Suc show ?thesis by (simp add: Let_def)
  qed
qed

lemma set_fold_setAdd: "set (fold setAdd xs acc) = set xs \<union> set acc"
  by (induction xs arbitrary: acc) (auto simp: setAdd_def)

lemma distinct_fold_setAdd: "distinct acc \<Longrightarrow> distinct (fold setAdd xs acc)"
  by (induction xs arbitrary: acc) (auto simp: setAdd_def)

lemma discover_sorted_distinct:
  "sorted (discoverAvailableIndices raw) \<and> distinct (discoverAvailableIndices raw)
   \<and> set (discoverAvailableIndices raw) = set raw"
  by (simp add: discoverAvailableIndices_def newSet_def set_fold_setAdd distinct_fold_setAdd)

lemma valid_sorted_distinct:
  "sorted (preValidateAndFilter ok (discoverAvailableIndices raw))
   \<and> distinct (preValidateAndFilter ok (discoverAvailableIndices raw))"
  using discover_sorted_distinct [of raw]
  by (simp add: preValidateAndFilter_def sorted_wrt_filter)

lemma next_present:
  assumes "distinct av" and "i < length av"
  shows "getNextAuthIndex av (av ! i) = Some (av ! ((i + 1) mod length av))"
proof -
  from assms have ne: "length av \<noteq> 0" by auto
  have idx: "indexOf av (av ! i) = int i" using assms by (rule indexOf_nth)
  have "nat ((int i + 1) mod int (length av)) = (i + 1) mod length av"
    by (metis nat_int of_nat_1 of_nat_add zmod_int)
  with ne idx show ?thesis by (simp add: getNextAuthIndex_def Let_def)
qed

lemma next_absent:
  assumes "av \<noteq> []" and "a \<notin> set av"
  shows "getNextAuthIndex av a = Some (av ! 0)"
  using assms by (simp add: getNextAuthIndex_def indexOf_absent)

text \<open>
  Claim C4. \<open>next\<close> is round-robin over the currently valid, sorted index list: the list
  that discovery and validation produce is sorted and free of duplicates; from the
  element at position \<open>i\<close> the successor is the element at position \<open>(i + 1) mod n\<close>; an
  index that is not in the list gives the first valid index. For the eligible set
  \<open>{1, 3, 7}\<close>: \<open>next 1 = 3\<close>, \<open>next 3 = 7\<close>, \<open>next 7 = 1\<close>, and anything else gives 1.
\<close>

theorem next_round_robin:
  "av = preValidateAndFilter wellFormed (discoverAvailableIndices raw) \<Longrightarrow>
     sorted av \<and> distinct av
     \<and> (\<forall>i < length av. getNextAuthIndex av (av ! i) = Some (av ! ((i + 1) mod length av)))
     \<and> (av \<noteq> [] \<longrightarrow> (\<forall>a. a \<notin> set av \<longrightarrow> getNextAuthIndex av a = Some (av ! 0)))
     \<and> discoverAvailableIndices [7, 1, 3, 1] = [1, 3, 7]
     \<and> getNextAuthIndex [1, 3, 7] 1 = Some 3
     \<and> getNextAuthIndex [1, 3, 7] 3 = Some 7
     \<and> getNextAuthIndex [1, 3, 7] 7 = Some 1
     \<and> (\<forall>a. a \<notin> {1, 3, 7} \<longrightarrow> getNextAuthIndex [1, 3, 7] a = Some 1)"
proof -
  assume av: "av = preValidateAndFilter wellFormed (discoverAvailableIndices raw)"
  have sd: "sorted av \<and> distinct av"
    unfolding av by (rule valid_sorted_distinct)
  have rr: "\<forall>i < length av. getNextAuthIndex av (av ! i) = Some (av ! ((i + 1) mod length av))"
    using sd next_present by blast
  have ab: "av \<noteq> [] \<longrightarrow> (\<forall>a. a \<notin> set av \<longrightarrow> getNextAuthIndex av a = Some (av ! 0))"
    using next_absent by blast
  have d: "discoverAvailableIndices [7, 1, 3, 1] = [1, 3, 7]"
    by (simp add: discoverAvailableIndices_def newSet_def setAdd_def)
  have n1: "getNextAuthIndex [1, 3, 7] 1 = Some 3"
    by (simp add: getNextAuthIndex_def Let_def)
  have n3: "getNextAuthIndex [1, 3, 7] 3 = Some 7"
    by (simp add: getNextAuthIndex_def Let_def)
  have n7: "getNextAuthIndex [1, 3, 7] 7 = Some 1"
    by (simp add: getNextAuthIndex_def Let_def)
  have nx: "\<forall>a. a \<notin> {1, 3, 7} \<longrightarrow> getNextAuthIndex [1, 3, 7] a = Some 1"
    using next_absent [of "[1, 3, 7]"] by simp
  from sd rr ab d n1 n3 n7 nx show ?thesis by blast
qed

theorem next_round_robin_witness:
  "[1, 3, 7] = preValidateAndFilter (\<lambda>i. i \<noteq> 5) (discoverAvailableIndices [7, 5, 1, 3, 1])
   \<and> getNextAuthIndex [1, 3, 7] 7 = Some 1
   \<and> getNextAuthIndex [1, 3, 7] 5 = Some 1"
proof -
  have h: "[1, 3, 7] = preValidateAndFilter (\<lambda>i. i \<noteq> 5) (discoverAvailableIndices [7, 5, 1, 3, 1])"
    by (simp add: preValidateAndFilter_def discoverAvailableIndices_def newSet_def setAdd_def)
  note t = next_round_robin [OF h]
  from t have rr: "\<forall>i < length [1, 3, 7 :: int]. getNextAuthIndex [1, 3, 7] ([1, 3, 7] ! i)
      = Some ([1, 3, 7] ! ((i + 1) mod length [1, 3, 7 :: int]))"
    by blast
  from t have ab: "\<forall>a. a \<notin> set [1, 3, 7 :: int] \<longrightarrow> getNextAuthIndex [1, 3, 7] a = Some ([1, 3, 7] ! 0)"
    by blast
  from rr [rule_format, of 2] have r2: "getNextAuthIndex [1, 3, 7] 7 = Some 1"
    by simp
  from ab have a5: "getNextAuthIndex [1, 3, 7] 5 = Some 1"
    by simp
  from h r2 a5 show ?thesis by blast
qed

section \<open>Properties of the per-request queue\<close>

lemma close_closed_state:
  "fst (close q) =
     q\<lparr>closed := True,
       armedTimeouts := filter (\<lambda>t. fst t \<notin> set (waitingResolvers q)) (armedTimeouts q),
       waitingResolvers := [], messages := []\<rparr>"
  by (simp add: close_def)

lemma close_twice: "close (fst (close q)) = (fst (close q), [])"
  by (simp add: close_def)

lemma dequeue_after_close:
  "dequeue (fst (close q)) r t = (fst (close q), [Reject r ''Queue is closed''])"
  by (simp add: close_def dequeue_def)

lemma enqueue_after_close: "enqueue (fst (close q)) m = (fst (close q), [])"
  by (simp add: close_def enqueue_def)

lemma timeout_after_close: "snd (dequeueTimeout (fst (close q)) r) = []"
  by (simp add: close_def dequeueTimeout_def Let_def)


text \<open>
  Claim C6. \<^verbatim>\<open>close()\<close> marks the queue closed and rejects every consumer that is
  waiting at that moment, in order, with the error \<^verbatim>\<open>Queue closed\<close>, which is not the
  timeout's error \<^verbatim>\<open>Queue timeout\<close>; no consumer and no message is left. Afterwards
  every \<^verbatim>\<open>dequeue\<close> is rejected at once and leaves the queue as it is, no timeout
  rejects anybody, \<^verbatim>\<open>enqueue\<close> drops its message, and a second \<^verbatim>\<open>close()\<close> neither
  changes the queue nor settles any promise.
\<close>

theorem close_rejects_waiters_and_is_idempotent:
  "closed (fst (close q))
   \<and> snd (close q) = map (\<lambda>r. Reject r ''Queue closed'') (waitingResolvers q)
   \<and> ''Queue closed'' \<noteq> ''Queue timeout''
   \<and> waitingResolvers (fst (close q)) = []
   \<and> messages (fst (close q)) = []
   \<and> dequeue (fst (close q)) r t = (fst (close q), [Reject r ''Queue is closed''])
   \<and> snd (dequeueTimeout (fst (close q)) r) = []
   \<and> enqueue (fst (close q)) m = (fst (close q), [])
   \<and> close (fst (close q)) = (fst (close q), [])"
proof -
  have c: "closed (fst (close q))" by (simp add: close_def)
  have r: "snd (close q) = map (\<lambda>r. Reject r ''Queue closed'') (waitingResolvers q)"
    by (simp add: close_def)
  have d: "''Queue closed'' \<noteq> ''Queue timeout''" by simp
  have w: "waitingResolvers (fst (close q)) = []" by (simp add: close_def)
  have m: "messages (fst (close q)) = []" by (simp add: close_def)
  from c r d w m dequeue_after_close [of q r t] timeout_after_close [of q r]
    enqueue_after_close [of q m] close_twice [of q]
  show ?thesis by blast
qed

theorem close_rejects_waiters_and_is_idempotent_witness:
  "snd (close \<lparr>messages = [], waitingResolvers = [4, 9], defaultTimeout = 600000,
               closed = False, armedTimeouts = [(4, 600000), (9, 30000)]\<rparr>
        :: nat messageQueue \<times> nat settlement list)
     = [Reject 4 ''Queue closed'', Reject 9 ''Queue closed'']
   \<and> close (fst (close \<lparr>messages = [], waitingResolvers = [4, 9], defaultTimeout = 600000,
               closed = False, armedTimeouts = [(4, 600000), (9, 30000)]\<rparr>))
     = (\<lparr>messages = [], waitingResolvers = [], defaultTimeout = 600000,
               closed = True, armedTimeouts = []\<rparr> :: nat messageQueue, [])"
  using close_rejects_waiters_and_is_idempotent
    [of "\<lparr>messages = [], waitingResolvers = [4, 9], defaultTimeout = 600000,
          closed = False, armedTimeouts = [(4, 600000), (9, 30000)]\<rparr> :: nat messageQueue"]
  by (simp add: close_def)


section \<open>Properties of the backchannel registry\<close>

lemma runTimers_none_armed: "armedTimers reg = [] \<Longrightarrow> runTimers reg now = (reg, [])"
  by (simp add: runTimers_def)

text \<open>
  A websocket closes at time \<open>t0\<close> while no grace timer is armed, and \<open>qs\<close> is the queue
  table at the later moment considered. Before 5000 ms have passed the timer does not
  fire, and a connection added then cancels it: no timer is armed any more, the queue
  table is untouched, and the event loop closes nothing later on (\<open>grace_cancelled\<close>).
  Without a new connection the event loop at 5000 ms or later runs the cleanup once:
  every queue of the table is closed, its waiting consumers are rejected with
  \<^verbatim>\<open>Queue closed\<close>, the table is cleared and \<^verbatim>\<open>connectionLost\<close> is emitted
  (\<open>grace_expired\<close>).
\<close>

lemma removeConnection_state:
  assumes "armedTimers reg = []"
  shows "(fst (removeConnection reg t0 websocket))\<lparr>messageQueues := qs\<rparr> =
     reg\<lparr>connections := removeAll websocket (connections reg),
         armedTimers := [(nextTimer reg, t0 + 5000)],
         reconnectGraceTimer := Some (nextTimer reg),
         nextTimer := nextTimer reg + 1,
         messageQueues := qs\<rparr>"
  using assms by (simp add: removeConnection_def)

lemma grace_cancelled:
  assumes "armedTimers reg = []"
    and "reg1 = (fst (removeConnection reg t0 websocket))\<lparr>messageQueues := qs\<rparr>"
    and "t1 < t0 + 5000"
  shows "runTimers reg1 t1 = (reg1, [])"
    and "armedTimers (fst (addConnection reg1 other)) = []"
    and "messageQueues (fst (addConnection reg1 other)) = qs"
    and "snd (addConnection reg1 other) = [Emit ''connectionAdded'']"
    and "runTimers (fst (addConnection reg1 other)) t2 = (fst (addConnection reg1 other), [])"
proof -
  note r1 = assms(2) [unfolded removeConnection_state [OF assms(1)]]
  show "runTimers reg1 t1 = (reg1, [])"
    using assms(3) by (simp add: r1 runTimers_def)
  show a: "armedTimers (fst (addConnection reg1 other)) = []"
    by (simp add: r1 addConnection_def clearTimeout_def Let_def)
  show "messageQueues (fst (addConnection reg1 other)) = qs"
    by (simp add: r1 addConnection_def Let_def)
  show "snd (addConnection reg1 other) = [Emit ''connectionAdded'']"
    by (simp add: addConnection_def Let_def)
  from a show "runTimers (fst (addConnection reg1 other)) t2 = (fst (addConnection reg1 other), [])"
    by (rule runTimers_none_armed)
qed

lemma grace_expired:
  assumes "armedTimers reg = []"
    and "reg1 = (fst (removeConnection reg t0 websocket))\<lparr>messageQueues := qs\<rparr>"
    and "t0 + 5000 \<le> t1"
  shows "runTimers reg1 t1 =
      (reg1\<lparr>armedTimers := [], messageQueues := []\<rparr>,
       map (\<lambda>entry. QueueClose (fst entry) (fst (close (snd entry)))
              (map (\<lambda>r. Reject r ''Queue closed'') (waitingResolvers (snd entry))))
         qs
       @ [Emit ''connectionLost''])"
    and "runTimers (fst (runTimers reg1 t1)) t2 = (fst (runTimers reg1 t1), [])"
proof -
  note r1 = assms(2) [unfolded removeConnection_state [OF assms(1)]]
  show f: "runTimers reg1 t1 =
      (reg1\<lparr>armedTimers := [], messageQueues := []\<rparr>,
       map (\<lambda>entry. QueueClose (fst entry) (fst (close (snd entry)))
              (map (\<lambda>r. Reject r ''Queue closed'') (waitingResolvers (snd entry))))
         qs
       @ [Emit ''connectionLost''])"
    using assms(3)
    by (simp add: r1 runTimers_def graceExpired_def clearTimeout_def Let_def close_def)
  show "runTimers (fst (runTimers reg1 t1)) t2 = (fst (runTimers reg1 t1), [])"
    by (rule runTimers_none_armed) (simp add: f)
qed


text \<open>
  Both lemmas need that no grace timer is armed when the websocket closes.
  \<^verbatim>\<open>_removeConnection\<close> does not look at \<^verbatim>\<open>reconnectGraceTimer\<close> before it stores
  the new handle there, so a timer that is already armed stays armed with its handle lost.
\<close>

lemma second_disconnect_keeps_first_timer:
  "armedTimers (fst (removeConnection reg now websocket))
     = armedTimers reg @ [(nextTimer reg, now + 5000)]
   \<and> reconnectGraceTimer (fst (removeConnection reg now websocket)) = Some (nextTimer reg)"
  by (simp add: removeConnection_def)

lemma twoBackchannels_state:
  "twoBackchannels =
     \<lparr>connections = [1, 2],
      messageQueues = [(''r1'', \<lparr>messages = [], waitingResolvers = [4],
                                 defaultTimeout = 600000, closed = False,
                                 armedTimeouts = [(4, 600000)]\<rparr>)],
      reconnectGraceTimer = None, armedTimers = [], nextTimer = 0\<rparr>"
  by (simp add: twoBackchannels_def addConnection_def newConnectionRegistry_def
      createMessageQueue_def newMessageQueue_def dequeue_def Let_def)


text \<open>
  Claim C7. The code does not keep the first half of the claim. Websockets 1 and 2 are
  connected and the queue \<^verbatim>\<open>r1\<close> is open with a waiting consumer. Websocket 1 closes
  at 1000 ms and websocket 2 at 2000 ms: two grace timers are armed, due at 6000 ms and
  at 7000 ms, and \<^verbatim>\<open>reconnectGraceTimer\<close> holds the handle of the second only. Nothing
  fires up to 3000 ms, when websocket 3 connects, within 5 seconds of both disconnects:
  \<^verbatim>\<open>addConnection\<close> clears the timer whose handle is stored and logs that the
  disconnect handling is cancelled, but the first timer stays armed. At 6000 ms it fires:
  \<^verbatim>\<open>r1\<close> is closed, its consumer is rejected with \<^verbatim>\<open>Queue closed\<close>, the queue table
  is cleared and \<^verbatim>\<open>connectionLost\<close> is emitted, with websocket 3 connected. The
  callback logs that no reconnect was detected within the grace period.
\<close>

theorem reconnect_does_not_cancel_earlier_timer:
  "armedTimers (fst (removeConnection (fst (removeConnection twoBackchannels 1000 1)) 2000 2))
     = [(0, 6000), (1, 7000)]
   \<and> reconnectGraceTimer
       (fst (removeConnection (fst (removeConnection twoBackchannels 1000 1)) 2000 2))
     = Some 1
   \<and> snd (runTimers
       (fst (removeConnection (fst (removeConnection twoBackchannels 1000 1)) 2000 2)) 3000)
     = []
   \<and> armedTimers (fst (addConnection
       (fst (removeConnection (fst (removeConnection twoBackchannels 1000 1)) 2000 2)) 3))
     = [(0, 6000)]
   \<and> snd (runTimers (fst (addConnection
       (fst (removeConnection (fst (removeConnection twoBackchannels 1000 1)) 2000 2)) 3)) 5999)
     = []
   \<and> runTimers (fst (addConnection
       (fst (removeConnection (fst (removeConnection twoBackchannels 1000 1)) 2000 2)) 3)) 6000
     = (\<lparr>connections = [3], messageQueues = [], reconnectGraceTimer = None, armedTimers = [],
         nextTimer = 2\<rparr>,
        [QueueClose ''r1'' \<lparr>messages = [], waitingResolvers = [], defaultTimeout = 600000,
                            closed = True, armedTimeouts = []\<rparr> [Reject 4 ''Queue closed''],
         Emit ''connectionLost''])"
  by (simp add: twoBackchannels_state removeConnection_def addConnection_def clearTimeout_def
      runTimers_def graceExpired_def close_def Let_def)


section \<open>Properties of the rotation\<close>

lemma indexOf_lt: "indexOf xs v \<noteq> -1 \<Longrightarrow> 0 \<le> indexOf xs v \<and> indexOf xs v < int (length xs)"
  using indexOf_range [of xs v] by auto

lemma next_in_available: "getNextAuthIndex av c = Some i \<Longrightarrow> i \<in> set av"
proof -
  assume a: "getNextAuthIndex av c = Some i"
  then have ne: "av \<noteq> []" by (auto simp: getNextAuthIndex_def split: if_splits)
  show ?thesis
  proof (cases "indexOf av c = -1")
    case True
    with a ne have "i = av ! 0" by (simp add: getNextAuthIndex_def)
    with ne show ?thesis by (simp add: nth_mem)
  next
    case False
    have "0 \<le> (indexOf av c + 1) mod int (length av)" "(indexOf av c + 1) mod int (length av) < int (length av)"
      using ne by simp_all
    then have "nat ((indexOf av c + 1) mod int (length av)) < length av" by linarith
    moreover from a ne False have "i = av ! nat ((indexOf av c + 1) mod int (length av))"
      by (simp add: getNextAuthIndex_def Let_def)
    ultimately show ?thesis by (simp add: nth_mem)
  qed
qed


lemma switch_guard: "isAuthSwitching s \<Longrightarrow> switchToNextAuth a b s = (Returned AlreadyInProgress, [], s)"
  by (simp add: switchToNextAuth_def)

lemma switch_success:
  assumes "\<not> isAuthSwitching s"
    and "getNextAuthIndex (availableIndices s) (currentAuthIndex s) = Some i"
  shows "switchToNextAuth True b s =
     (Returned (Success i), [SwitchAccount (Some i)],
      s\<lparr>usageCount := 0, currentAuthIndex := i, isAuthSwitching := False, isSystemBusy := False\<rparr>)"
proof -
  from assms(2) have "i \<in> set (availableIndices s)" by (rule next_in_available)
  with assms show ?thesis
    by (simp add: switchToNextAuth_def launchOrSwitchContext_def releaseSwitch_def Let_def)
qed

lemma launch_fails:
  "authIndex = None \<or> \<not> sessionOk \<Longrightarrow> launchOrSwitchContext sessionOk authIndex s = (False, s)"
  by (auto simp: launchOrSwitchContext_def split: option.splits)

lemma switch_failed_first:
  assumes "\<not> isAuthSwitching s"
    and "getNextAuthIndex (availableIndices s) (currentAuthIndex s) = nxt"
    and "nxt = None \<or> \<not> switchOk"
  shows "switchToNextAuth switchOk fallbackOk s =
     (let restored = launchOrSwitchContext fallbackOk (Some (currentAuthIndex s))
                       (s\<lparr>isSystemBusy := True, isAuthSwitching := True\<rparr>)
      in if fst restored
         then (Returned (Fallback (currentAuthIndex ((snd restored)\<lparr>usageCount := 0\<rparr>))),
               [SwitchAccount nxt, LaunchOrSwitchContext (currentAuthIndex s)],
               releaseSwitch ((snd restored)\<lparr>usageCount := 0\<rparr>))
         else (Thrown, [SwitchAccount nxt, LaunchOrSwitchContext (currentAuthIndex s)],
               releaseSwitch (snd restored)))"
proof -
  have "launchOrSwitchContext switchOk nxt (s\<lparr>isSystemBusy := True, isAuthSwitching := True\<rparr>)
        = (False, s\<lparr>isSystemBusy := True, isAuthSwitching := True\<rparr>)"
    using assms(3) by (rule launch_fails)
  with assms(1,2) show ?thesis
    by (simp add: switchToNextAuth_def Let_def)
qed

lemma switch_fallback:
  assumes "\<not> isAuthSwitching s"
    and "getNextAuthIndex (availableIndices s) (currentAuthIndex s) = nxt"
    and "nxt = None \<or> \<not> switchOk"
    and "currentAuthIndex s \<in> set (availableIndices s)"
  shows "switchToNextAuth switchOk True s =
     (Returned (Fallback (currentAuthIndex s)),
      [SwitchAccount nxt, LaunchOrSwitchContext (currentAuthIndex s)],
      s\<lparr>usageCount := 0, isAuthSwitching := False, isSystemBusy := False\<rparr>)"
  using assms(4)
  by (simp add: switch_failed_first [OF assms(1-3)] launchOrSwitchContext_def releaseSwitch_def)

lemma switch_thrown:
  assumes "\<not> isAuthSwitching s"
    and "getNextAuthIndex (availableIndices s) (currentAuthIndex s) = nxt"
    and "nxt = None \<or> \<not> switchOk"
    and "currentAuthIndex s \<notin> set (availableIndices s) \<or> \<not> fallbackOk"
  shows "switchToNextAuth switchOk fallbackOk s =
     (Thrown, [SwitchAccount nxt, LaunchOrSwitchContext (currentAuthIndex s)],
      s\<lparr>isAuthSwitching := False, isSystemBusy := False\<rparr>)"
  using assms(4)
  by (auto simp: switch_failed_first [OF assms(1-3)] launchOrSwitchContext_def releaseSwitch_def)

text \<open>
  Claim C5. When no switch is in progress, \<^verbatim>\<open>_switchToNextAuth\<close> computes the
  successor \<open>nxt\<close> of the current index in the valid list and first asks the browser
  for a session on it. If that succeeds the usage counter is 0 and \<open>nxt\<close> is current.
  If it fails (also when there is no successor), the previous index is re-established:
  when that succeeds the usage counter is 0 and the result is the fallback outcome
  (not a success), on the previous index; when that fails too the error is thrown to the
  caller and the usage counter keeps its value. In every case both busy flags are
  cleared.
\<close>

theorem rotate_outcomes:
  "\<not> isAuthSwitching s \<Longrightarrow>
   nxt = getNextAuthIndex (availableIndices s) (currentAuthIndex s) \<Longrightarrow>
     (\<forall>i. nxt = Some i \<longrightarrow> i \<in> set (availableIndices s))
     \<and> (\<forall>i. nxt = Some i \<longrightarrow>
           switchToNextAuth True fallbackOk s =
             (Returned (Success i), [SwitchAccount (Some i)],
              s\<lparr>usageCount := 0, currentAuthIndex := i,
                isAuthSwitching := False, isSystemBusy := False\<rparr>))
     \<and> ((nxt = None \<or> \<not> switchOk) \<and> currentAuthIndex s \<in> set (availableIndices s) \<longrightarrow>
           switchToNextAuth switchOk True s =
             (Returned (Fallback (currentAuthIndex s)),
              [SwitchAccount nxt, LaunchOrSwitchContext (currentAuthIndex s)],
              s\<lparr>usageCount := 0, isAuthSwitching := False, isSystemBusy := False\<rparr>))
     \<and> ((nxt = None \<or> \<not> switchOk)
          \<and> (currentAuthIndex s \<notin> set (availableIndices s) \<or> \<not> fallbackOk) \<longrightarrow>
           switchToNextAuth switchOk fallbackOk s =
             (Thrown,
              [SwitchAccount nxt, LaunchOrSwitchContext (currentAuthIndex s)],
              s\<lparr>isAuthSwitching := False, isSystemBusy := False\<rparr>))"
proof -
  assume g: "\<not> isAuthSwitching s"
    and n: "nxt = getNextAuthIndex (availableIndices s) (currentAuthIndex s)"
  have a: "\<forall>i. nxt = Some i \<longrightarrow> i \<in> set (availableIndices s)"
    using n next_in_available by metis
  have b: "\<forall>i. nxt = Some i \<longrightarrow>
           switchToNextAuth True fallbackOk s =
             (Returned (Success i), [SwitchAccount (Some i)],
              s\<lparr>usageCount := 0, currentAuthIndex := i,
                isAuthSwitching := False, isSystemBusy := False\<rparr>)"
    using switch_success [OF g] n by metis
  have c: "(nxt = None \<or> \<not> switchOk) \<and> currentAuthIndex s \<in> set (availableIndices s) \<longrightarrow>
           switchToNextAuth switchOk True s =
             (Returned (Fallback (currentAuthIndex s)),
              [SwitchAccount nxt, LaunchOrSwitchContext (currentAuthIndex s)],
              s\<lparr>usageCount := 0, isAuthSwitching := False, isSystemBusy := False\<rparr>)"
    using switch_fallback [OF g n [symmetric]] by blast
  have d: "(nxt = None \<or> \<not> switchOk)
          \<and> (currentAuthIndex s \<notin> set (availableIndices s) \<or> \<not> fallbackOk) \<longrightarrow>
           switchToNextAuth switchOk fallbackOk s =
             (Thrown,
              [SwitchAccount nxt, LaunchOrSwitchContext (currentAuthIndex s)],
              s\<lparr>isAuthSwitching := False, isSystemBusy := False\<rparr>)"
    using switch_thrown [OF g n [symmetric]] by blast
  from a b c d show ?thesis by blast
qed

theorem rotate_outcomes_witness:
  "switchToNextAuth True True
     \<lparr>usageCount = 40, activeRequestCount = 0, pendingSwitch = True, isAuthSwitching = False,
      isSystemBusy = False, currentAuthIndex = 7, availableIndices = [1, 3, 7]\<rparr>
   = (Returned (Success 1), [SwitchAccount (Some 1)],
      \<lparr>usageCount = 0, activeRequestCount = 0, pendingSwitch = True, isAuthSwitching = False,
       isSystemBusy = False, currentAuthIndex = 1, availableIndices = [1, 3, 7]\<rparr>)
   \<and> switchToNextAuth False True
     \<lparr>usageCount = 40, activeRequestCount = 0, pendingSwitch = True, isAuthSwitching = False,
      isSystemBusy = False, currentAuthIndex = 7, availableIndices = [1, 3, 7]\<rparr>
   = (Returned (Fallback 7), [SwitchAccount (Some 1), LaunchOrSwitchContext 7],
      \<lparr>usageCount = 0, activeRequestCount = 0, pendingSwitch = True, isAuthSwitching = False,
       isSystemBusy = False, currentAuthIndex = 7, availableIndices = [1, 3, 7]\<rparr>)
   \<and> switchToNextAuth False False
     \<lparr>usageCount = 40, activeRequestCount = 0, pendingSwitch = True, isAuthSwitching = False,
      isSystemBusy = False, currentAuthIndex = 7, availableIndices = [1, 3, 7]\<rparr>
   = (Thrown, [SwitchAccount (Some 1), LaunchOrSwitchContext 7],
      \<lparr>usageCount = 40, activeRequestCount = 0, pendingSwitch = True, isAuthSwitching = False,
       isSystemBusy = False, currentAuthIndex = 7, availableIndices = [1, 3, 7]\<rparr>)"
proof -
  let ?s = "\<lparr>usageCount = 40, activeRequestCount = 0, pendingSwitch = True,
             isAuthSwitching = False, isSystemBusy = False, currentAuthIndex = 7,
             availableIndices = [1, 3, 7]\<rparr>"
  have g: "\<not> isAuthSwitching ?s" by simp
  have n: "Some 1 = getNextAuthIndex (availableIndices ?s) (currentAuthIndex ?s)"
    by (simp add: getNextAuthIndex_def Let_def)
  from rotate_outcomes [OF g n, where switchOk = False and fallbackOk = True]
    rotate_outcomes [OF g n, where switchOk = False and fallbackOk = False]
  show ?thesis by simp
qed


section \<open>Properties of the deferred switch\<close>

lemma rotations_switch:
  "\<not> isAuthSwitching s \<Longrightarrow> rotations (fst (snd (switchToNextAuth a b s))) = 1"
  by (simp add: switchToNextAuth_def rotations_def Let_def)

lemma rotations_switch_guarded:
  "isAuthSwitching s \<Longrightarrow> rotations (fst (snd (switchToNextAuth a b s))) = 0"
  by (simp add: switchToNextAuth_def rotations_def)

lemma switch_keeps_counters:
  "activeRequestCount (snd (snd (switchToNextAuth a b s))) = activeRequestCount s
   \<and> pendingSwitch (snd (snd (switchToNextAuth a b s))) = pendingSwitch s
   \<and> isAuthSwitching (snd (snd (switchToNextAuth a b s))) = (isAuthSwitching s)"
  by (simp add: switchToNextAuth_def launchOrSwitchContext_def releaseSwitch_def Let_def
      split: option.splits)

lemma try_busy: "activeRequestCount s \<noteq> 0 \<Longrightarrow> tryExecutePendingSwitch a b s = ([], s)"
  by (simp add: tryExecutePendingSwitch_def)

lemma try_runs:
  "pendingSwitch s \<Longrightarrow> activeRequestCount s = 0 \<Longrightarrow> \<not> isAuthSwitching s \<Longrightarrow>
     rotations (fst (tryExecutePendingSwitch a b s)) = 1
     \<and> \<not> pendingSwitch (snd (tryExecutePendingSwitch a b s))
     \<and> activeRequestCount (snd (tryExecutePendingSwitch a b s)) = 0
     \<and> \<not> isAuthSwitching (snd (tryExecutePendingSwitch a b s))"
  using switch_keeps_counters [of a b s]
  by (simp add: tryExecutePendingSwitch_def Let_def rotations_switch)

lemma finally_busy:
  "activeRequestCount s > 1 \<Longrightarrow>
     requestFinally a b s = ([], s\<lparr>activeRequestCount := activeRequestCount s - 1\<rparr>)"
  by (simp add: requestFinally_def Let_def try_busy)

lemma finally_last:
  assumes "pendingSwitch s" and "activeRequestCount s \<le> 1" and "\<not> isAuthSwitching s"
  shows "rotations (fst (requestFinally a b s)) = 1
     \<and> \<not> pendingSwitch (snd (requestFinally a b s))
     \<and> activeRequestCount (snd (requestFinally a b s)) = 0"
proof -
  let ?s2 = "if activeRequestCount s - 1 < 0
             then s\<lparr>activeRequestCount := 0\<rparr>
             else s\<lparr>activeRequestCount := activeRequestCount s - 1\<rparr>"
  have e: "requestFinally a b s = tryExecutePendingSwitch a b ?s2"
    by (simp add: requestFinally_def Let_def)
  have "pendingSwitch ?s2" "activeRequestCount ?s2 = 0" "\<not> isAuthSwitching ?s2"
    using assms by auto
  from try_runs [OF this, of a b] show ?thesis by (simp only: e) simp
qed

lemma immediate_rotates:
  "includesStatus (immediateSwitchStatusCodes cfg) st \<Longrightarrow> \<not> isAuthSwitching s \<Longrightarrow>
     rotations (fst (snd (snd (handleRequestFailureAndSwitch cfg a b st res s)))) = 1"
  using rotations_switch [of s a b]
  by (simp add: handleRequestFailureAndSwitch_def Let_def rotations_def sendErrorResponse_def
      sendErrorChunkToClient_def endIfOpen_def)

text \<open>
  Claim C1, as amended. The deferred switch (\<^verbatim>\<open>_tryExecutePendingSwitch\<close>, called from
  the \<^verbatim>\<open>finally\<close> block of \<^verbatim>\<open>processRequest\<close> and \<^verbatim>\<open>processOpenAIRequest\<close>)
  starts no rotation while \<^verbatim>\<open>activeRequestCount\<close> is positive, and the block of a
  request that is not the last one only decrements the counter. When the block brings the
  counter to 0 with \<^verbatim>\<open>pendingSwitch\<close> set and no switch running, it starts exactly
  one rotation and clears \<^verbatim>\<open>pendingSwitch\<close>. The immediate-switch policy is not
  bound by the counter or the flag: with a status of the configured set and no switch
  running it starts a rotation in every state.
\<close>

theorem deferred_switch_waits_for_drain:
  "(activeRequestCount s > 0 \<longrightarrow> tryExecutePendingSwitch switchOk fallbackOk s = ([], s))
   \<and> (activeRequestCount s > 1 \<longrightarrow>
        requestFinally switchOk fallbackOk s
          = ([], s\<lparr>activeRequestCount := activeRequestCount s - 1\<rparr>))
   \<and> (pendingSwitch s \<and> activeRequestCount s \<le> 1 \<and> \<not> isAuthSwitching s \<longrightarrow>
        rotations (fst (requestFinally switchOk fallbackOk s)) = 1
        \<and> \<not> pendingSwitch (snd (requestFinally switchOk fallbackOk s))
        \<and> activeRequestCount (snd (requestFinally switchOk fallbackOk s)) = 0)
   \<and> (includesStatus (immediateSwitchStatusCodes cfg) st \<and> \<not> isAuthSwitching s \<longrightarrow>
        rotations (fst (snd (snd
          (handleRequestFailureAndSwitch cfg switchOk fallbackOk st res s)))) = 1)"
  using try_busy [of s switchOk fallbackOk] finally_busy [of s switchOk fallbackOk]
    finally_last [of s switchOk fallbackOk]
    immediate_rotates [of cfg st s switchOk fallbackOk res]
  by auto

theorem deferred_switch_waits_for_drain_witness:
  "tryExecutePendingSwitch True True (idleHandler\<lparr>activeRequestCount := 2, pendingSwitch := True\<rparr>)
     = ([], idleHandler\<lparr>activeRequestCount := 2, pendingSwitch := True\<rparr>)
   \<and> requestFinally True True (idleHandler\<lparr>activeRequestCount := 2, pendingSwitch := True\<rparr>)
     = ([], idleHandler\<lparr>activeRequestCount := 1, pendingSwitch := True\<rparr>)
   \<and> requestFinally True True (idleHandler\<lparr>activeRequestCount := 1, pendingSwitch := True\<rparr>)
     = ([SwitchAccount (Some 3)], idleHandler\<lparr>currentAuthIndex := 3\<rparr>)
   \<and> rotations [SwitchAccount (Some 3)] = 1"
proof -
  note t2 = deferred_switch_waits_for_drain
    [of "idleHandler\<lparr>activeRequestCount := 2, pendingSwitch := True\<rparr>" True True]
  note t1 = deferred_switch_waits_for_drain
    [of "idleHandler\<lparr>activeRequestCount := 1, pendingSwitch := True\<rparr>" True True]
  have f: "requestFinally True True (idleHandler\<lparr>activeRequestCount := 1, pendingSwitch := True\<rparr>)
     = ([SwitchAccount (Some 3)], idleHandler\<lparr>currentAuthIndex := 3\<rparr>)"
    by (simp add: requestFinally_def tryExecutePendingSwitch_def switchToNextAuth_def
        launchOrSwitchContext_def releaseSwitch_def getNextAuthIndex_def idleHandler_def
        newRequestHandler_def Let_def)
  from t2 t1 f show ?thesis
    by (simp add: idleHandler_def newRequestHandler_def)
qed

text \<open>
  Claim C1 as stated fails: with the threshold 1 the first chat request is admitted and
  sets \<^verbatim>\<open>pendingSwitch\<close>; its upstream error 429 then rotates from index 1 to
  index 3 while \<^verbatim>\<open>pendingSwitch\<close> is set and \<^verbatim>\<open>activeRequestCount\<close> is 1.
\<close>

theorem rotation_while_pending_counterexample:
  "processOpenAIRequest_admit thresholdOne idleHandler
     = (Admitted, freshResponse, [],
        idleHandler\<lparr>usageCount := 1, activeRequestCount := 1, pendingSwitch := True\<rparr>)
   \<and> pendingSwitch (idleHandler\<lparr>usageCount := 1, activeRequestCount := 1, pendingSwitch := True\<rparr>)
   \<and> activeRequestCount (idleHandler\<lparr>usageCount := 1, activeRequestCount := 1, pendingSwitch := True\<rparr>) > 0
   \<and> openAI_frontError thresholdOne True True False rateLimited freshResponse
        (idleHandler\<lparr>usageCount := 1, activeRequestCount := 1, pendingSwitch := True\<rparr>)
     = (\<lparr>headersSent = True, writableEnded = True\<rparr>,
        [SendError 503 (SwitchingNotice (Some 429)), SwitchAccount (Some 3)],
        idleHandler\<lparr>usageCount := 0, activeRequestCount := 1, pendingSwitch := True,
                    currentAuthIndex := 3\<rparr>)"
  by (simp add: processOpenAIRequest_admit_def countUsage_def thresholdOne_def defaultConfig_def
      idleHandler_def newRequestHandler_def freshResponse_def openAI_frontError_def
      handleRequestFailureAndSwitch_def includesStatus_def rateLimited_def
      sendErrorResponse_def statusOr500_def endIfOpen_def switchToNextAuth_def
      launchOrSwitchContext_def releaseSwitch_def getNextAuthIndex_def Let_def)

text \<open>
  The amended claim speaks of the requests that end in the \<^verbatim>\<open>finally\<close> block. The
  chat request whose body cannot be translated ends before it: with the threshold 1 it
  leaves \<^verbatim>\<open>activeRequestCount\<close> at 0 with \<^verbatim>\<open>pendingSwitch\<close> set, starts no
  rotation, and the next request is rejected as rotating.
\<close>

lemma translation_error_leaves_switch_pending:
  "processOpenAIRequest_translationFailed freshResponse
       (idleHandler\<lparr>usageCount := 1, activeRequestCount := 1, pendingSwitch := True\<rparr>)
     = (\<lparr>headersSent = True, writableEnded = True\<rparr>,
        [SendError 400 (Plain ''Invalid OpenAI request format.'')],
        idleHandler\<lparr>usageCount := 1, pendingSwitch := True\<rparr>)
   \<and> fst (processOpenAIRequest_admit thresholdOne
            (idleHandler\<lparr>usageCount := 1, pendingSwitch := True\<rparr>)) = Rejected"
  by (simp add: processOpenAIRequest_translationFailed_def processOpenAIRequest_admit_def
      sendErrorResponse_def statusOr500_def freshResponse_def idleHandler_def
      newRequestHandler_def Let_def)


section \<open>Properties of the admission\<close>

lemma countUsage_active: "activeRequestCount (countUsage cfg g s) = activeRequestCount s"
  by (simp add: countUsage_def Let_def)

lemma rotating_rejected:
  "pendingSwitch s \<or> isAuthSwitching s \<Longrightarrow>
     processRequest_admit cfg connected req s
       = (Rejected, \<lparr>headersSent = True, writableEnded = True\<rparr>, [SendError 503 rotatingMessage], s)
     \<and> processOpenAIRequest_admit cfg s
       = (Rejected, \<lparr>headersSent = True, writableEnded = True\<rparr>, [SendError 503 rotatingMessage], s)"
  by (simp add: processRequest_admit_def processOpenAIRequest_admit_def sendErrorResponse_def
      freshResponse_def statusOr500_def Let_def)

lemma connected_counters:
  "fst (processRequest_connected cfg req res s) = Rejected \<Longrightarrow>
     usageCount (snd (snd (snd (processRequest_connected cfg req res s)))) = usageCount s
     \<and> activeRequestCount (snd (snd (snd (processRequest_connected cfg req res s))))
         = activeRequestCount s - 1"
  by (simp add: processRequest_connected_def Let_def split: if_splits)

lemma connected_admitted:
  "fst (processRequest_connected cfg req res s) = Admitted \<Longrightarrow>
     activeRequestCount (snd (snd (snd (processRequest_connected cfg req res s))))
         = activeRequestCount s"
  by (simp add: processRequest_connected_def Let_def countUsage_active split: if_splits)

lemma connected_not_awaiting: "fst (processRequest_connected cfg req res s) \<noteq> AwaitingRecovery"
  by (simp add: processRequest_connected_def Let_def)

lemma awaiting_incremented:
  "fst (processRequest_admit cfg connected req s) = AwaitingRecovery \<Longrightarrow>
     processRequest_admit cfg connected req s
       = (AwaitingRecovery, freshResponse, [LaunchOrSwitchContext (currentAuthIndex s)],
          s\<lparr>activeRequestCount := activeRequestCount s + 1, isSystemBusy := True\<rparr>)
     \<and> \<not> connected \<and> \<not> pendingSwitch s \<and> \<not> isAuthSwitching s \<and> \<not> isSystemBusy s"
  using connected_not_awaiting
  by (auto simp: processRequest_admit_def Let_def split: if_splits)

lemma admit_rejected_counters:
  "fst (processRequest_admit cfg connected req s) = Rejected \<Longrightarrow>
     usageCount (snd (snd (snd (processRequest_admit cfg connected req s)))) = usageCount s
     \<and> activeRequestCount (snd (snd (snd (processRequest_admit cfg connected req s))))
         = activeRequestCount s"
  using connected_counters [of cfg req freshResponse "s\<lparr>activeRequestCount := activeRequestCount s + 1\<rparr>"]
  by (auto simp: processRequest_admit_def Let_def split: if_splits)

lemma admit_admitted_counters:
  "fst (processRequest_admit cfg connected req s) = Admitted \<Longrightarrow>
     activeRequestCount (snd (snd (snd (processRequest_admit cfg connected req s))))
         = activeRequestCount s + 1"
  using connected_admitted [of cfg req freshResponse "s\<lparr>activeRequestCount := activeRequestCount s + 1\<rparr>"]
  by (auto simp: processRequest_admit_def Let_def split: if_splits)

lemma launch_counters:
  "usageCount (snd (launchOrSwitchContext ok i s)) = usageCount s
   \<and> activeRequestCount (snd (launchOrSwitchContext ok i s)) = activeRequestCount s"
  by (simp add: launchOrSwitchContext_def split: option.splits)

lemma recovered_rejected_counters:
  "fst (processRequest_recovered cfg ok i req res s) = Rejected \<Longrightarrow>
     usageCount (snd (snd (snd (processRequest_recovered cfg ok i req res s)))) = usageCount s
     \<and> activeRequestCount (snd (snd (snd (processRequest_recovered cfg ok i req res s))))
         = activeRequestCount s - 1"
  using connected_counters [of cfg req res "(snd (launchOrSwitchContext ok (Some i) s))\<lparr>isSystemBusy := False\<rparr>"]
    launch_counters [of ok "Some i" s]
  by (auto simp: processRequest_recovered_def Let_def split: if_splits)

lemma recovered_admitted_counters:
  "fst (processRequest_recovered cfg ok i req res s) = Admitted \<Longrightarrow>
     activeRequestCount (snd (snd (snd (processRequest_recovered cfg ok i req res s))))
         = activeRequestCount s"
  using connected_admitted [of cfg req res "(snd (launchOrSwitchContext ok (Some i) s))\<lparr>isSystemBusy := False\<rparr>"]
    launch_counters [of ok "Some i" s]
  by (auto simp: processRequest_recovered_def Let_def split: if_splits)

lemma admission_rejected_counters:
  assumes "fst (processRequest_admission cfg connected ok req s) = Rejected"
  shows "usageCount (snd (snd (snd (processRequest_admission cfg connected ok req s)))) = usageCount s
     \<and> activeRequestCount (snd (snd (snd (processRequest_admission cfg connected ok req s))))
         = activeRequestCount s"
proof (cases "fst (processRequest_admit cfg connected req s) = AwaitingRecovery")
  case True
  from awaiting_incremented [OF True]
  have a: "processRequest_admit cfg connected req s
       = (AwaitingRecovery, freshResponse, [LaunchOrSwitchContext (currentAuthIndex s)],
          s\<lparr>activeRequestCount := activeRequestCount s + 1, isSystemBusy := True\<rparr>)"
    by (rule conjunct1)
  let ?s1 = "s\<lparr>activeRequestCount := activeRequestCount s + 1, isSystemBusy := True\<rparr>"
  have e: "processRequest_admission cfg connected ok req s =
      (fst (processRequest_recovered cfg ok (currentAuthIndex s) req freshResponse ?s1),
       fst (snd (processRequest_recovered cfg ok (currentAuthIndex s) req freshResponse ?s1)),
       [LaunchOrSwitchContext (currentAuthIndex s)]
         @ fst (snd (snd (processRequest_recovered cfg ok (currentAuthIndex s) req freshResponse ?s1))),
       snd (snd (snd (processRequest_recovered cfg ok (currentAuthIndex s) req freshResponse ?s1))))"
    by (simp add: processRequest_admission_def Let_def a)
  with assms have "fst (processRequest_recovered cfg ok (currentAuthIndex s) req freshResponse ?s1) = Rejected"
    by simp
  from recovered_rejected_counters [OF this] e show ?thesis by simp
next
  case False
  then have e: "processRequest_admission cfg connected ok req s = processRequest_admit cfg connected req s"
    by (simp add: processRequest_admission_def Let_def)
  with assms admit_rejected_counters [of cfg connected req s] show ?thesis by simp
qed

lemma admission_admitted_counters:
  assumes "fst (processRequest_admission cfg connected ok req s) = Admitted"
  shows "activeRequestCount (snd (snd (snd (processRequest_admission cfg connected ok req s))))
         = activeRequestCount s + 1"
proof (cases "fst (processRequest_admit cfg connected req s) = AwaitingRecovery")
  case True
  from awaiting_incremented [OF True]
  have a: "processRequest_admit cfg connected req s
       = (AwaitingRecovery, freshResponse, [LaunchOrSwitchContext (currentAuthIndex s)],
          s\<lparr>activeRequestCount := activeRequestCount s + 1, isSystemBusy := True\<rparr>)"
    by (rule conjunct1)
  let ?s1 = "s\<lparr>activeRequestCount := activeRequestCount s + 1, isSystemBusy := True\<rparr>"
  have e: "processRequest_admission cfg connected ok req s =
      (fst (processRequest_recovered cfg ok (currentAuthIndex s) req freshResponse ?s1),
       fst (snd (processRequest_recovered cfg ok (currentAuthIndex s) req freshResponse ?s1)),
       [LaunchOrSwitchContext (currentAuthIndex s)]
         @ fst (snd (snd (processRequest_recovered cfg ok (currentAuthIndex s) req freshResponse ?s1))),
       snd (snd (snd (processRequest_recovered cfg ok (currentAuthIndex s) req freshResponse ?s1))))"
    by (simp add: processRequest_admission_def Let_def a)
  with assms have "fst (processRequest_recovered cfg ok (currentAuthIndex s) req freshResponse ?s1) = Admitted"
    by simp
  from recovered_admitted_counters [OF this] e show ?thesis by simp
next
  case False
  then have e: "processRequest_admission cfg connected ok req s = processRequest_admit cfg connected req s"
    by (simp add: processRequest_admission_def Let_def)
  with assms admit_admitted_counters [of cfg connected req s] show ?thesis by simp
qed

lemma openAI_admitted:
  "\<not> pendingSwitch s \<Longrightarrow> \<not> isAuthSwitching s \<Longrightarrow>
     fst (processOpenAIRequest_admit cfg s) = Admitted
     \<and> activeRequestCount (snd (snd (snd (processOpenAIRequest_admit cfg s)))) = activeRequestCount s + 1"
  by (simp add: processOpenAIRequest_admit_def countUsage_active)

text \<open>
  Claim C2, as amended. When a rotation is pending or in progress, \<^verbatim>\<open>processRequest\<close>
  and \<^verbatim>\<open>processOpenAIRequest\<close> answer 503 with the text \<^verbatim>\<open>Server is rotating
  accounts, please retry shortly.\<close> and leave the handler's state as it was. The native
  handler increments \<^verbatim>\<open>activeRequestCount\<close> before it looks at the backchannel: the
  state on which it awaits the recovery already holds the incremented counter. Every
  rejection decrements it again, so a rejected request returns with \<^verbatim>\<open>usageCount\<close>
  and \<^verbatim>\<open>activeRequestCount\<close> at their values from before; an admitted request
  returns with \<^verbatim>\<open>activeRequestCount\<close> one higher. The chat handler has no
  backchannel rule: when no rotation is pending or in progress it admits.
\<close>

theorem admission_counters:
  "(pendingSwitch s \<or> isAuthSwitching s \<longrightarrow>
      processRequest_admit cfg connected req s
        = (Rejected, \<lparr>headersSent = True, writableEnded = True\<rparr>,
           [SendError 503 (Plain ''Server is rotating accounts, please retry shortly.'')], s)
      \<and> processOpenAIRequest_admit cfg s
        = (Rejected, \<lparr>headersSent = True, writableEnded = True\<rparr>,
           [SendError 503 (Plain ''Server is rotating accounts, please retry shortly.'')], s))
   \<and> (fst (processRequest_admit cfg connected req s) = AwaitingRecovery \<longrightarrow>
        activeRequestCount (snd (snd (snd (processRequest_admit cfg connected req s))))
          = activeRequestCount s + 1)
   \<and> (fst (processRequest_admission cfg connected recoveryOk req s) = Rejected \<longrightarrow>
        usageCount (snd (snd (snd (processRequest_admission cfg connected recoveryOk req s))))
          = usageCount s
        \<and> activeRequestCount (snd (snd (snd (processRequest_admission cfg connected recoveryOk req s))))
          = activeRequestCount s)
   \<and> (fst (processRequest_admission cfg connected recoveryOk req s) = Admitted \<longrightarrow>
        activeRequestCount (snd (snd (snd (processRequest_admission cfg connected recoveryOk req s))))
          = activeRequestCount s + 1)
   \<and> (\<not> pendingSwitch s \<and> \<not> isAuthSwitching s \<longrightarrow>
        fst (processOpenAIRequest_admit cfg s) = Admitted
        \<and> activeRequestCount (snd (snd (snd (processOpenAIRequest_admit cfg s))))
          = activeRequestCount s + 1)"
proof -
  have a: "fst (processRequest_admit cfg connected req s) = AwaitingRecovery \<longrightarrow>
        activeRequestCount (snd (snd (snd (processRequest_admit cfg connected req s))))
          = activeRequestCount s + 1"
    using awaiting_incremented [of cfg connected req s] by auto
  from a rotating_rejected [of s cfg connected req]
    admission_rejected_counters [of cfg connected recoveryOk req s]
    admission_admitted_counters [of cfg connected recoveryOk req s]
    openAI_admitted [of s cfg]
  show ?thesis unfolding rotatingMessage_def by blast
qed

theorem admission_counters_witness:
  "processRequest_admit defaultConfig True generateRequest (idleHandler\<lparr>pendingSwitch := True\<rparr>)
     = (Rejected, \<lparr>headersSent = True, writableEnded = True\<rparr>,
        [SendError 503 (Plain ''Server is rotating accounts, please retry shortly.'')],
        idleHandler\<lparr>pendingSwitch := True\<rparr>)
   \<and> processRequest_admission defaultConfig False False generateRequest idleHandler
     = (Rejected, \<lparr>headersSent = True, writableEnded = True\<rparr>,
        [LaunchOrSwitchContext 1, SendError 503 RecoveryFailedNotice], idleHandler)
   \<and> processRequest_admission defaultConfig True False generateRequest idleHandler
     = (Admitted, freshResponse, [], idleHandler\<lparr>usageCount := 1, activeRequestCount := 1\<rparr>)
   \<and> processOpenAIRequest_admit defaultConfig idleHandler
     = (Admitted, freshResponse, [], idleHandler\<lparr>usageCount := 1, activeRequestCount := 1\<rparr>)"
proof -
  have r: "processRequest_admission defaultConfig False False generateRequest idleHandler
     = (Rejected, \<lparr>headersSent = True, writableEnded = True\<rparr>,
        [LaunchOrSwitchContext 1, SendError 503 RecoveryFailedNotice], idleHandler)"
    by (simp add: processRequest_admission_def processRequest_admit_def
        processRequest_recovered_def launchOrSwitchContext_def sendErrorResponse_def
        statusOr500_def freshResponse_def idleHandler_def newRequestHandler_def Let_def)
  have a: "processRequest_admission defaultConfig True False generateRequest idleHandler
     = (Admitted, freshResponse, [], idleHandler\<lparr>usageCount := 1, activeRequestCount := 1\<rparr>)"
    by (simp add: processRequest_admission_def processRequest_admit_def
        processRequest_connected_def countUsage_def isGenerativeRequest_def generateRequest_def
        defaultConfig_def idleHandler_def newRequestHandler_def Let_def)
  have o: "processOpenAIRequest_admit defaultConfig idleHandler
     = (Admitted, freshResponse, [], idleHandler\<lparr>usageCount := 1, activeRequestCount := 1\<rparr>)"
    by (simp add: processOpenAIRequest_admit_def countUsage_def
        defaultConfig_def idleHandler_def newRequestHandler_def Let_def)
  from admission_counters [of "idleHandler\<lparr>pendingSwitch := True\<rparr>" defaultConfig True
      generateRequest False]
  have "processRequest_admit defaultConfig True generateRequest (idleHandler\<lparr>pendingSwitch := True\<rparr>)
     = (Rejected, \<lparr>headersSent = True, writableEnded = True\<rparr>,
        [SendError 503 (Plain ''Server is rotating accounts, please retry shortly.'')],
        idleHandler\<lparr>pendingSwitch := True\<rparr>)"
    by simp
  with r a o show ?thesis by blast
qed

text \<open>
  Claim C2 as stated fails: with no backchannel and an idle system the native handler has
  already set \<^verbatim>\<open>activeRequestCount\<close> to 1 when it suspends for the recovery, and
  the rejection (the recovery fails) comes only afterwards.
\<close>

theorem counter_touched_before_outcome_counterexample:
  "processRequest_admit defaultConfig False generateRequest idleHandler
     = (AwaitingRecovery, freshResponse, [LaunchOrSwitchContext 1],
        idleHandler\<lparr>activeRequestCount := 1, isSystemBusy := True\<rparr>)
   \<and> activeRequestCount (idleHandler\<lparr>activeRequestCount := 1, isSystemBusy := True\<rparr>)
       \<noteq> activeRequestCount idleHandler
   \<and> processRequest_recovered defaultConfig False 1 generateRequest freshResponse
        (idleHandler\<lparr>activeRequestCount := 1, isSystemBusy := True\<rparr>)
     = (Rejected, \<lparr>headersSent = True, writableEnded = True\<rparr>,
        [SendError 503 RecoveryFailedNotice], idleHandler)"
  by (simp add: processRequest_admit_def processRequest_recovered_def launchOrSwitchContext_def
      sendErrorResponse_def statusOr500_def freshResponse_def idleHandler_def
      newRequestHandler_def Let_def)


section \<open>Properties of the immediate switch\<close>

lemma handled_immediate:
  assumes "includesStatus (immediateSwitchStatusCodes cfg) st" and "\<not> writableEnded res"
  shows "handleRequestFailureAndSwitch cfg a b st res s =
     (True, \<lparr>headersSent = True, writableEnded = True\<rparr>,
      (if \<not> headersSent res then [SendError 503 (SwitchingNotice st)]
       else [WriteErrorChunk (SwitchingNotice st), EndResponse])
      @ fst (snd (switchToNextAuth a b s)),
      snd (snd (switchToNextAuth a b s)))"
  using assms
  by (cases res)
     (simp add: handleRequestFailureAndSwitch_def sendErrorResponse_def sendErrorChunkToClient_def
       endIfOpen_def statusOr500_def Let_def)

lemma not_handled:
  "\<not> includesStatus (immediateSwitchStatusCodes cfg) st \<Longrightarrow>
     handleRequestFailureAndSwitch cfg a b st res s = (False, res, [], s)"
  by (simp add: handleRequestFailureAndSwitch_def)

lemma front_nonStream:
  assumes "includesStatus (immediateSwitchStatusCodes cfg) (status m)" and "\<not> writableEnded res"
    and "\<not> userAborted m"
  shows "nonStream_frontError cfg a b m res s = snd (handleRequestFailureAndSwitch cfg a b (status m) res s)"
  using assms(3) by (simp add: nonStream_frontError_def Let_def handled_immediate [OF assms(1,2)])

lemma front_realStream:
  assumes "includesStatus (immediateSwitchStatusCodes cfg) (status m)" and "\<not> writableEnded res"
    and "\<not> userAborted m"
  shows "realStream_frontError cfg a b m res s = snd (handleRequestFailureAndSwitch cfg a b (status m) res s)"
  using assms(3) by (simp add: realStream_frontError_def Let_def handled_immediate [OF assms(1,2)])

lemma front_pseudoStream:
  assumes "includesStatus (immediateSwitchStatusCodes cfg) (status m)" and "\<not> writableEnded res"
    and "\<not> userAborted m"
  shows "pseudoStream_frontError cfg a b m res s = snd (handleRequestFailureAndSwitch cfg a b (status m) res s)"
  using assms(3)
  by (simp add: pseudoStream_frontError_def Let_def endIfOpen_def handled_immediate [OF assms(1,2)])

lemma front_openAI:
  assumes "includesStatus (immediateSwitchStatusCodes cfg) (status m)" and "\<not> writableEnded res"
  shows "openAI_frontError cfg a b str m res s = snd (handleRequestFailureAndSwitch cfg a b (status m) res s)"
  by (simp add: openAI_frontError_def Let_def endIfOpen_def handled_immediate [OF assms(1,2)])

lemma switch_effects_start:
  "\<not> isAuthSwitching s \<Longrightarrow>
     take 1 (fst (snd (switchToNextAuth a b s)))
       = [SwitchAccount (getNextAuthIndex (availableIndices s) (currentAuthIndex s))]"
  by (simp add: switchToNextAuth_def Let_def)

lemma switch_effects_guarded: "isAuthSwitching s \<Longrightarrow> fst (snd (switchToNextAuth a b s)) = []"
  by (simp add: switchToNextAuth_def)

text \<open>
  Claim C3, as amended. Let the first upstream event of a request be an error whose
  status is in the configured immediate-switch set, on a response that has not been
  ended. On the chat path, and on the non-stream, real-stream and pseudo-stream paths
  when the error's text does not contain \<^verbatim>\<open>The user aborted a request\<close>, the client
  is first answered (the 503 body when the headers are unsent, otherwise the error chunk
  followed by the end of the stream), the response is ended, and only then does the
  handler call the rotation, for every value of \<^verbatim>\<open>activeRequestCount\<close> and
  \<^verbatim>\<open>pendingSwitch\<close>: the effects are the answer followed by those of
  \<^verbatim>\<open>_switchToNextAuth\<close>, which begin with the session request for the next index
  unless a switch is already in progress, in which case there are none.
\<close>

theorem immediate_switch_answers_first:
  "includesStatus (immediateSwitchStatusCodes cfg) (status m) \<Longrightarrow> \<not> writableEnded res \<Longrightarrow>
   answer = (if \<not> headersSent res then [SendError 503 (SwitchingNotice (status m))]
             else [WriteErrorChunk (SwitchingNotice (status m)), EndResponse]) \<Longrightarrow>
   rotation = switchToNextAuth switchOk fallbackOk s \<Longrightarrow>
   expected = (\<lparr>headersSent = True, writableEnded = True\<rparr>,
               answer @ fst (snd rotation), snd (snd rotation)) \<Longrightarrow>
     openAI_frontError cfg switchOk fallbackOk isOpenAIStream m res s = expected
     \<and> (\<not> userAborted m \<longrightarrow>
          nonStream_frontError cfg switchOk fallbackOk m res s = expected
          \<and> realStream_frontError cfg switchOk fallbackOk m res s = expected
          \<and> pseudoStream_frontError cfg switchOk fallbackOk m res s = expected)
     \<and> (\<not> isAuthSwitching s \<longrightarrow>
          take 1 (fst (snd rotation))
            = [SwitchAccount (getNextAuthIndex (availableIndices s) (currentAuthIndex s))])
     \<and> (isAuthSwitching s \<longrightarrow> fst (snd rotation) = [])"
proof -
  assume i: "includesStatus (immediateSwitchStatusCodes cfg) (status m)"
    and w: "\<not> writableEnded res"
    and a: "answer = (if \<not> headersSent res then [SendError 503 (SwitchingNotice (status m))]
             else [WriteErrorChunk (SwitchingNotice (status m)), EndResponse])"
    and r: "rotation = switchToNextAuth switchOk fallbackOk s"
    and e: "expected = (\<lparr>headersSent = True, writableEnded = True\<rparr>,
               answer @ fst (snd rotation), snd (snd rotation))"
  have h: "snd (handleRequestFailureAndSwitch cfg switchOk fallbackOk (status m) res s) = expected"
    unfolding e a r by (simp only: handled_immediate [OF i w] snd_conv)
  have o: "openAI_frontError cfg switchOk fallbackOk isOpenAIStream m res s = expected"
    using front_openAI [OF i w] h by simp
  have n: "\<not> userAborted m \<longrightarrow>
          nonStream_frontError cfg switchOk fallbackOk m res s = expected
          \<and> realStream_frontError cfg switchOk fallbackOk m res s = expected
          \<and> pseudoStream_frontError cfg switchOk fallbackOk m res s = expected"
    using front_nonStream [OF i w] front_realStream [OF i w] front_pseudoStream [OF i w] h
    by simp
  have s1: "\<not> isAuthSwitching s \<longrightarrow>
          take 1 (fst (snd rotation))
            = [SwitchAccount (getNextAuthIndex (availableIndices s) (currentAuthIndex s))]"
    unfolding r using switch_effects_start by blast
  have s2: "isAuthSwitching s \<longrightarrow> fst (snd rotation) = []"
    unfolding r using switch_effects_guarded by blast
  from o n s1 s2 show ?thesis by blast
qed

theorem immediate_switch_answers_first_witness:
  "nonStream_frontError defaultConfig True True rateLimited freshResponse
       (idleHandler\<lparr>activeRequestCount := 3\<rparr>)
     = (\<lparr>headersSent = True, writableEnded = True\<rparr>,
        [SendError 503 (SwitchingNotice (Some 429)), SwitchAccount (Some 3)],
        idleHandler\<lparr>activeRequestCount := 3, currentAuthIndex := 3\<rparr>)
   \<and> pseudoStream_frontError defaultConfig True True rateLimited
       \<lparr>headersSent = True, writableEnded = False\<rparr> (idleHandler\<lparr>activeRequestCount := 3\<rparr>)
     = (\<lparr>headersSent = True, writableEnded = True\<rparr>,
        [WriteErrorChunk (SwitchingNotice (Some 429)), EndResponse, SwitchAccount (Some 3)],
        idleHandler\<lparr>activeRequestCount := 3, currentAuthIndex := 3\<rparr>)"
proof -
  let ?s = "idleHandler\<lparr>activeRequestCount := 3\<rparr>"
  have i: "includesStatus (immediateSwitchStatusCodes defaultConfig) (status rateLimited)"
    by (simp add: includesStatus_def defaultConfig_def rateLimited_def)
  have u: "\<not> userAborted rateLimited"
    by (simp add: userAborted_def rateLimited_def)
  have r: "switchToNextAuth True True ?s
      = (Returned (Success 3), [SwitchAccount (Some 3)],
         idleHandler\<lparr>activeRequestCount := 3, currentAuthIndex := 3\<rparr>)"
    by (simp add: switchToNextAuth_def launchOrSwitchContext_def releaseSwitch_def
        getNextAuthIndex_def idleHandler_def newRequestHandler_def Let_def)
  have w1: "\<not> writableEnded freshResponse" by (simp add: freshResponse_def)
  have w2: "\<not> writableEnded \<lparr>headersSent = True, writableEnded = False\<rparr>" by simp
  from immediate_switch_answers_first [OF i w1 refl refl refl, where switchOk = True and fallbackOk = True and s = "?s"] u
  have a: "nonStream_frontError defaultConfig True True rateLimited freshResponse ?s
     = (\<lparr>headersSent = True, writableEnded = True\<rparr>,
        [SendError 503 (SwitchingNotice (Some 429)), SwitchAccount (Some 3)],
        idleHandler\<lparr>activeRequestCount := 3, currentAuthIndex := 3\<rparr>)"
    by (simp add: r freshResponse_def rateLimited_def)
  from immediate_switch_answers_first [OF i w2 refl refl refl, where switchOk = True and fallbackOk = True and s = "?s"] u
  have b: "pseudoStream_frontError defaultConfig True True rateLimited
       \<lparr>headersSent = True, writableEnded = False\<rparr> ?s
     = (\<lparr>headersSent = True, writableEnded = True\<rparr>,
        [WriteErrorChunk (SwitchingNotice (Some 429)), EndResponse, SwitchAccount (Some 3)],
        idleHandler\<lparr>activeRequestCount := 3, currentAuthIndex := 3\<rparr>)"
    by (simp add: r rateLimited_def)
  from a b show ?thesis by blast
qed

text \<open>
  Claim C3 as stated fails for two requests whose first upstream event is an error with
  status 429, which is in the default immediate-switch set. On the non-stream path an
  error whose text says that the user aborted the request is passed on with its own
  status 429, and no rotation follows. On the model-list path the error ends in the
  answer 500, and no rotation follows.
\<close>

theorem no_switch_for_some_front_errors_counterexample:
  "includesStatus (immediateSwitchStatusCodes defaultConfig) (status abortedWith429)
   \<and> event_type abortedWith429 = Some ErrorEvent
   \<and> nonStream_frontError defaultConfig True True abortedWith429 freshResponse
        (idleHandler\<lparr>activeRequestCount := 1\<rparr>)
     = (\<lparr>headersSent = True, writableEnded = True\<rparr>,
        [SendError 429 (Upstream (Some ''The user aborted a request.''))],
        idleHandler\<lparr>activeRequestCount := 1\<rparr>)
   \<and> includesStatus (immediateSwitchStatusCodes defaultConfig) (status rateLimited)
   \<and> event_type rateLimited = Some ErrorEvent
   \<and> processModelListRequest (\<lambda>body. []) True [Got rateLimited] idleHandler
     = (\<lparr>headersSent = True, writableEnded = True\<rparr>,
        [CreateMessageQueue, ForwardRequest,
         SendError 500 (Plain ''Failed to fetch model list.''), RemoveMessageQueue],
        idleHandler)"
  by (simp add: includesStatus_def defaultConfig_def abortedWith429_def rateLimited_def
      nonStream_frontError_def userAborted_def sendErrorResponse_def statusOr500_def
      freshResponse_def processModelListRequest_def Let_def)


section \<open>Properties of the model list\<close>

lemma model_list_state: "snd (snd (processModelListRequest parseModels connected events s)) = s"
  by (simp add: processModelListRequest_def Let_def)

lemma model_list_independent:
  "fst (processModelListRequest parseModels connected events s)
     = fst (processModelListRequest parseModels connected events s')
   \<and> fst (snd (processModelListRequest parseModels connected events s))
     = fst (snd (processModelListRequest parseModels connected events s'))"
  by (simp add: processModelListRequest_def Let_def)

lemma model_list_answers:
  "fst (processModelListRequest parseModels connected events s)
     = \<lparr>headersSent = True, writableEnded = True\<rparr>"
  by (simp add: processModelListRequest_def Let_def sendErrorResponse_def freshResponse_def
      split: completion.splits)

lemma model_list_forwards:
  "take 2 (fst (snd (processModelListRequest parseModels True events s)))
     = [CreateMessageQueue, ForwardRequest]"
  by (simp add: processModelListRequest_def Let_def)

text \<open>
  Claim C9. \<^verbatim>\<open>processModelListRequest\<close> returns the handler's state as it received
  it on every path, so \<^verbatim>\<open>activeRequestCount\<close>, \<^verbatim>\<open>usageCount\<close>,
  \<^verbatim>\<open>pendingSwitch\<close> and \<^verbatim>\<open>isAuthSwitching\<close> keep their values. It has no
  admission check: its answer and its effects are the same whatever \<^verbatim>\<open>pendingSwitch\<close>
  and \<^verbatim>\<open>isAuthSwitching\<close> are, it always answers the client, and with a backchannel
  it creates its queue and forwards the listing request.
\<close>

theorem model_list_leaves_rotation_state:
  "snd (snd (processModelListRequest parseModels connected events s)) = s
   \<and> activeRequestCount (snd (snd (processModelListRequest parseModels connected events s)))
       = activeRequestCount s
   \<and> usageCount (snd (snd (processModelListRequest parseModels connected events s)))
       = usageCount s
   \<and> pendingSwitch (snd (snd (processModelListRequest parseModels connected events s)))
       = pendingSwitch s
   \<and> isAuthSwitching (snd (snd (processModelListRequest parseModels connected events s)))
       = isAuthSwitching s
   \<and> fst (processModelListRequest parseModels connected events s)
       = fst (processModelListRequest parseModels connected events
               (s\<lparr>pendingSwitch := p, isAuthSwitching := a\<rparr>))
   \<and> fst (snd (processModelListRequest parseModels connected events s))
       = fst (snd (processModelListRequest parseModels connected events
                    (s\<lparr>pendingSwitch := p, isAuthSwitching := a\<rparr>)))
   \<and> fst (processModelListRequest parseModels connected events s)
       = \<lparr>headersSent = True, writableEnded = True\<rparr>
   \<and> take 2 (fst (snd (processModelListRequest parseModels True events s)))
       = [CreateMessageQueue, ForwardRequest]"
  using model_list_independent [of parseModels connected events s
      "s\<lparr>pendingSwitch := p, isAuthSwitching := a\<rparr>"]
    model_list_answers [of parseModels connected events s]
    model_list_forwards [of parseModels events s]
  by (simp add: model_list_state)

theorem model_list_leaves_rotation_state_witness:
  "processModelListRequest (\<lambda>body. if body = ''{models}'' then [Some ''models/gemini-pro''] else [])
     True
     [Got \<lparr>event_type = Some ResponseHeaders, isStreamEnd = False, status = Some 200,
           data = None, errorText = None\<rparr>,
      Got \<lparr>event_type = Some Chunk, isStreamEnd = False, status = None,
           data = Some ''{models}'', errorText = None\<rparr>,
      Got \<lparr>event_type = None, isStreamEnd = True, status = None, data = None, errorText = None\<rparr>]
     (idleHandler\<lparr>activeRequestCount := 2, pendingSwitch := True, isAuthSwitching := True\<rparr>)
   = (\<lparr>headersSent = True, writableEnded = True\<rparr>,
      [CreateMessageQueue, ForwardRequest, SendModels [''gemini-pro''], RemoveMessageQueue],
      idleHandler\<lparr>activeRequestCount := 2, pendingSwitch := True, isAuthSwitching := True\<rparr>)"
proof -
  let ?p = "\<lambda>body. if body = ''{models}'' then [Some ''models/gemini-pro''] else []"
  let ?ev = "[Got \<lparr>event_type = Some ResponseHeaders, isStreamEnd = False, status = Some 200,
           data = None, errorText = None\<rparr>,
      Got \<lparr>event_type = Some Chunk, isStreamEnd = False, status = None,
           data = Some ''{models}'', errorText = None\<rparr>,
      Got \<lparr>event_type = None, isStreamEnd = True, status = None, data = None, errorText = None\<rparr>]"
  let ?s = "idleHandler\<lparr>activeRequestCount := 2, pendingSwitch := True, isAuthSwitching := True\<rparr>"
  have e: "fst (snd (processModelListRequest ?p True ?ev ?s))
      = [CreateMessageQueue, ForwardRequest, SendModels [''gemini-pro''], RemoveMessageQueue]"
    by (simp add: processModelListRequest_def Let_def)
  from model_list_leaves_rotation_state [of ?p True ?ev ?s] e
  show ?thesis by (simp add: prod_eq_iff)
qed


section \<open>Properties of the API keys\<close>

lemma splitOn_nonempty: "splitOn sep s \<noteq> []"
  by (induction s) (auto split: list.splits)

lemma blank_entries_default:
  assumes "envApiKeys = None \<or> (\<exists>v. envApiKeys = Some v \<and> list_all (\<lambda>k. trim k = []) (splitOn CHR '','' v))"
  shows "loadApiKeys envApiKeys = [''123456'']"
proof -
  have "filter (\<lambda>k. k \<noteq> []) (map trim ks) = []" if "list_all (\<lambda>k. trim k = []) ks" for ks
    using that by (induction ks) auto
  with assms show ?thesis
    by (auto simp: loadApiKeys_def Let_def)
qed

lemma keys_never_empty: "loadApiKeys envApiKeys \<noteq> []"
  by (auto simp: loadApiKeys_def Let_def)

lemma keys_nonblank: "k \<in> set (loadApiKeys envApiKeys) \<Longrightarrow> k \<noteq> []"
  by (auto simp: loadApiKeys_def Let_def split: if_splits)

lemma denied_without_key:
  assumes "keys \<noteq> []"
    and "\<forall>k. xGoogApiKey req = Some k \<longrightarrow> k \<notin> set keys"
    and "\<forall>t. authorization req = Some (''Bearer '' @ t) \<longrightarrow> t \<notin> set keys"
    and "\<forall>k. xApiKey req = Some k \<longrightarrow> k \<notin> set keys"
    and "\<forall>k. queryKey req = Some (QueryString k) \<longrightarrow> k \<notin> set keys"
  shows "authMiddleware keys req = Denied401"
proof -
  have b: "a = ''Bearer '' @ drop 7 a" if "startsWith a ''Bearer ''" for a
  proof -
    have "startsWith a p \<Longrightarrow> a = p @ drop (length p) a" for p
      by (induction a p rule: startsWith.induct) auto
    from this [OF that] have "a = ''Bearer '' @ drop (length ''Bearer '') a" .
    moreover have "length ''Bearer '' = 7" by simp
    ultimately show ?thesis by (simp only:)
  qed
  show ?thesis
  proof (cases "clientKey req")
    case None
    with assms(1) show ?thesis by (simp add: authMiddleware_def)
  next
    case (Some q)
    show ?thesis
    proof (cases q)
      case QueryStructure
      with Some assms(1) show ?thesis by (simp add: authMiddleware_def)
    next
      case (QueryString k)
      have "k \<notin> set keys"
        using Some QueryString assms(2-5) b
        by (auto simp: clientKey_def truthyHeader_def truthyQuery_def
            split: if_splits option.splits queryValue.splits)
      with Some QueryString assms(1) show ?thesis by (simp add: authMiddleware_def)
    qed
  qed
qed

lemma passes_only_with_key:
  "keys \<noteq> [] \<Longrightarrow> authMiddleware keys req = Next r \<Longrightarrow>
     (\<exists>k. clientKey req = Some (QueryString k) \<and> k \<in> set keys)"
  by (auto simp: authMiddleware_def split: option.splits queryValue.splits if_splits)

text \<open>
  Claim C10. When \<^verbatim>\<open>API_KEYS\<close> is unset, or every entry of its comma-separated
  value is blank after trimming (the empty value included), the configured keys are
  exactly the one default key \<^verbatim>\<open>123456\<close>. For every value of \<^verbatim>\<open>API_KEYS\<close> the
  list of configured keys is non-empty, so the middleware never takes its branch that
  lets every request pass: a request that reaches the key check passes only when its
  client key is a configured key, and a request none of whose four channels
  (\<^verbatim>\<open>x-goog-api-key\<close>, the bearer token, \<^verbatim>\<open>x-api-key\<close>, the query parameter
  \<^verbatim>\<open>key\<close>) carries a configured key is answered 401.
\<close>

theorem default_key_and_key_check:
  "keys = loadApiKeys envApiKeys \<Longrightarrow>
     ((envApiKeys = None
       \<or> (\<exists>v. envApiKeys = Some v \<and> list_all (\<lambda>k. trim k = []) (splitOn CHR '','' v)))
      \<longrightarrow> keys = [''123456''])
     \<and> keys \<noteq> []
     \<and> (\<forall>req r. authMiddleware keys req = Next r \<longrightarrow>
           (\<exists>k. clientKey req = Some (QueryString k) \<and> k \<in> set keys))
     \<and> (\<forall>req.
           (\<forall>k. xGoogApiKey req = Some k \<longrightarrow> k \<notin> set keys)
           \<and> (\<forall>t. authorization req = Some (''Bearer '' @ t) \<longrightarrow> t \<notin> set keys)
           \<and> (\<forall>k. xApiKey req = Some k \<longrightarrow> k \<notin> set keys)
           \<and> (\<forall>k. queryKey req = Some (QueryString k) \<longrightarrow> k \<notin> set keys)
           \<longrightarrow> authMiddleware keys req = Denied401)"
proof -
  assume k: "keys = loadApiKeys envApiKeys"
  have ne: "keys \<noteq> []" unfolding k by (rule keys_never_empty)
  have d: "(envApiKeys = None
       \<or> (\<exists>v. envApiKeys = Some v \<and> list_all (\<lambda>k. trim k = []) (splitOn CHR '','' v)))
      \<longrightarrow> keys = [''123456'']"
    unfolding k using blank_entries_default by blast
  have p: "\<forall>req r. authMiddleware keys req = Next r \<longrightarrow>
           (\<exists>k. clientKey req = Some (QueryString k) \<and> k \<in> set keys)"
    using passes_only_with_key [OF ne] by blast
  have x: "\<forall>req.
           (\<forall>k. xGoogApiKey req = Some k \<longrightarrow> k \<notin> set keys)
           \<and> (\<forall>t. authorization req = Some (''Bearer '' @ t) \<longrightarrow> t \<notin> set keys)
           \<and> (\<forall>k. xApiKey req = Some k \<longrightarrow> k \<notin> set keys)
           \<and> (\<forall>k. queryKey req = Some (QueryString k) \<longrightarrow> k \<notin> set keys)
           \<longrightarrow> authMiddleware keys req = Denied401"
    using denied_without_key [OF ne] by blast
  from d ne p x show ?thesis by blast
qed

theorem default_key_and_key_check_witness:
  "loadApiKeys (Some '' , '') = [''123456'']
   \<and> loadApiKeys None = [''123456'']
   \<and> authMiddleware (loadApiKeys (Some '' , ''))
        \<lparr>xGoogApiKey = None, authorization = Some ''Bearer abc'', xApiKey = Some ''12345'',
         queryKey = Some QueryStructure\<rparr>
       = Denied401"
proof -
  have t: "trim '' '' = []" by (simp add: trim_def isWhiteSpace_def)
  have s: "splitOn CHR '','' '' , '' = ['' '', '' '']" by simp
  have b: "list_all (\<lambda>k. trim k = []) (splitOn CHR '','' '' , '')"
    by (simp add: s t)
  note th = default_key_and_key_check [OF refl, of "Some '' , ''"]
  from th b have k: "loadApiKeys (Some '' , '') = [''123456'']" by blast
  from default_key_and_key_check [OF refl, of None] have n: "loadApiKeys None = [''123456'']"
    by blast
  let ?req = "\<lparr>xGoogApiKey = None, authorization = Some ''Bearer abc'', xApiKey = Some ''12345'',
         queryKey = Some QueryStructure\<rparr>"
  note deny = th [THEN conjunct2, THEN conjunct2, THEN conjunct2, rule_format, of ?req]
  have "authMiddleware (loadApiKeys (Some '' , '')) ?req = Denied401"
    by (rule deny) (simp add: k)
  with k n show ?thesis by blast
qed


section \<open>Properties of the request translation\<close>










end
